theory Spec2Isabelle
  imports Complex_Main "HOL-Library.Sublist" "HOL-Library.AList"
begin

section \<open>Python strings\<close>

text \<open>
  A Python \<open>str\<close> is modelled as a \<open>string\<close> whose characters are the code points
  below 256. \<open>part in line\<close> on two strings is the contiguous-substring test, which
  is \<^const>\<open>sublist\<close>; the empty string occurs in every string.
\<close>

definition py_in :: "string \<Rightarrow> string \<Rightarrow> bool" where
  "py_in part line = sublist part line"

text \<open>\<open>s.split(c)\<close> for a one-character separator: never empty, \<open>''.split(c) == ['']\<close>.\<close>

fun split :: "char \<Rightarrow> string \<Rightarrow> string list" where
  "split c [] = [[]]"
| "split c (x # xs) =
     (if x = c then [] # split c xs
      else (case split c xs of [] \<Rightarrow> [[x]] | w # ws \<Rightarrow> (x # w) # ws))"

text \<open>\<open>str.isspace\<close> on the code points below 256, and \<open>s.strip()\<close>.\<close>

definition isspace :: "char \<Rightarrow> bool" where
  "isspace c = (of_char c \<in> {9, 10, 11, 12, 13, 28, 29, 30, 31, 32, 133, 160 :: nat})"

definition strip :: "string \<Rightarrow> string" where
  "strip s = rev (dropWhile isspace (rev (dropWhile isspace s)))"

text \<open>\<open>s.lower()\<close> on the code points below 256: A-Z and the Latin-1 capitals.\<close>

definition lower_char :: "char \<Rightarrow> char" where
  "lower_char c =
     (let n = (of_char c :: nat)
      in if (65 \<le> n \<and> n \<le> 90) \<or> (192 \<le> n \<and> n \<le> 222 \<and> n \<noteq> 215)
         then char_of (n + 32) else c)"

definition lower :: "string \<Rightarrow> string" where
  "lower s = map lower_char s"

text \<open>\<open>str(n)\<close> for a non-negative integer.\<close>

function str_nat :: "nat \<Rightarrow> string" where
  "str_nat n =
     (if n < 10 then [char_of (48 + n)]
      else str_nat (n div 10) @ [char_of (48 + n mod 10)])"
  by pat_completeness auto
termination
  by (relation "measure id") auto

section \<open>Exceptions\<close>

text \<open>
  Each constructor is an exception class the code raises or catches; the string is the
  message \<open>str(e)\<close> is built from. \<open>HTTPException\<close> carries status code and detail.
\<close>

datatype exn =
    JSONDecodeError string
  | YAMLError string
  | ParseError string
  | TypeError string
  | KeyError string
  | Exception string
  | HTTPException nat string

fun str_exn :: "exn \<Rightarrow> string" where
  "str_exn (JSONDecodeError m) = m"
| "str_exn (YAMLError m) = m"
| "str_exn (ParseError m) = m"
| "str_exn (TypeError m) = m"
| "str_exn (KeyError k) = [CHR 0x27] @ k @ [CHR 0x27]"
| "str_exn (Exception m) = m"
| "str_exn (HTTPException code detail) = str_nat code @ '': '' @ detail"

text \<open>
  \<open>try: body  except Exception as e: raise Exception(f"<prefix>{str(e)}")\<close>:
  every exception of the body, whatever its class, leaves as a plain \<open>Exception\<close>.
\<close>

definition reraise :: "string \<Rightarrow> exn + 'a \<Rightarrow> exn + 'a" where
  "reraise msg body =
     (case body of Inl e \<Rightarrow> Inl (Exception (msg @ str_exn e)) | Inr r \<Rightarrow> Inr r)"

section \<open>Results of a comparison\<close>

record 'v change =
  path :: string
  change_type :: string
  old_value :: "'v option"
  new_value :: "'v option"

record summary =
  additions :: nat
  deletions :: nat
  modifications :: nat

record formatted =
  source :: "string list"
  target :: "string list"

record 'v result =
  summary :: summary
  diff :: "'v change list"
  formatted_diff :: formatted

section \<open>XML: \<open>utils/xml_diff.py\<close>\<close>

text \<open>
  An \<open>xml.etree.ElementTree.Element\<close> as far as the code reads it: \<open>tag\<close>, \<open>text\<close>
  (\<open>None\<close> or a string) and the child elements in document order.
\<close>

datatype element = Element (tag: string) (elem_text: "string option") (children: "element list")

text \<open>
  What \<open>xml_to_dict\<close> builds: a \<open>str\<close> (stripped text), a \<open>dict\<close> (a child element, keys
  in insertion order) or a \<open>list\<close> (children that repeat a tag).
\<close>

datatype xval = XStr string | XDict "(string \<times> xval) list" | XList "xval list"

type_synonym xdict = "(string \<times> xval) list"

text \<open>\<open>d[k] = v\<close>: an existing key keeps its position, a new key goes to the end.\<close>

definition dict_set :: "('k \<times> 'v) list \<Rightarrow> 'k \<Rightarrow> 'v \<Rightarrow> ('k \<times> 'v) list" where
  "dict_set d k v = AList.update k v d"

fun xml_to_dict :: "element \<Rightarrow> xdict"
  and children_loop :: "element list \<Rightarrow> xdict \<Rightarrow> xdict" where
  "xml_to_dict (Element t etext cs) =
     children_loop cs
       (case etext of
          None \<Rightarrow> []
        | Some s \<Rightarrow> if s \<noteq> [] \<and> strip s \<noteq> [] then [(''text'', XStr (strip s))] else [])"
| "children_loop [] result = result"
| "children_loop (Element t etext cs # rest) result =
     (let child_data = XDict (xml_to_dict (Element t etext cs))
      in case map_of result t of
           Some v \<Rightarrow>
             children_loop rest
               (dict_set result t
                  (case v of
                     XList xs \<Rightarrow> XList (xs @ [child_data])
                   | _ \<Rightarrow> XList [v, child_data]))
         | None \<Rightarrow> children_loop rest (dict_set result t child_data))"

text \<open>
  Python's \<open>==\<close> on these values: strings by content, lists element by element in
  order, dicts by key set and per-key value whatever the insertion order; values of
  different types are unequal.
\<close>

fun py_eq :: "xval \<Rightarrow> xval \<Rightarrow> bool"
  and py_eq_list :: "xval list \<Rightarrow> xval list \<Rightarrow> bool"
  and py_eq_items :: "xdict \<Rightarrow> xdict \<Rightarrow> bool" where
  "py_eq (XStr s) (XStr t) = (s = t)"
| "py_eq (XList xs) (XList ys) = py_eq_list xs ys"
| "py_eq (XDict d) (XDict e) = (length d = length e \<and> py_eq_items d e)"
| "py_eq (XStr s) (XList ys) = False"
| "py_eq (XStr s) (XDict e) = False"
| "py_eq (XList xs) (XStr t) = False"
| "py_eq (XList xs) (XDict e) = False"
| "py_eq (XDict d) (XStr t) = False"
| "py_eq (XDict d) (XList ys) = False"
| "py_eq_list [] [] = True"
| "py_eq_list (x # xs) (y # ys) = (py_eq x y \<and> py_eq_list xs ys)"
| "py_eq_list [] (y # ys) = False"
| "py_eq_list (x # xs) [] = False"
| "py_eq_items [] e = True"
| "py_eq_items ((k, v) # d) e =
     ((case map_of e k of None \<Rightarrow> False | Some w \<Rightarrow> py_eq v w) \<and> py_eq_items d e)"

text \<open>The deletion loop of \<open>compare_xml_dicts\<close> (second \<open>for\<close>).\<close>

fun source_loop :: "xdict \<Rightarrow> xdict \<Rightarrow> string list \<Rightarrow> string \<Rightarrow> xval change list" where
  "source_loop [] target_dict ignore_keys ppath = []"
| "source_loop ((key, val) # rest) target_dict ignore_keys ppath =
     (if key \<in> set ignore_keys then []
      else if map_of target_dict key = None
        then [\<lparr>path = ppath @ ''.'' @ key, change_type = ''deletion'',
               old_value = Some val, new_value = None\<rparr>]
        else [])
     @ source_loop rest target_dict ignore_keys ppath"

text \<open>
  \<open>compare_xml_dicts\<close>: the first \<open>for\<close> (additions, modifications, recursion into two
  dicts) is \<open>target_loop\<close>; the changes are appended in the order the loops meet them.
\<close>

fun compare_xml_dicts :: "xdict \<Rightarrow> xdict \<Rightarrow> string list \<Rightarrow> string \<Rightarrow> xval change list"
  and target_loop :: "xdict \<Rightarrow> xdict \<Rightarrow> string list \<Rightarrow> string \<Rightarrow> xval change list" where
  "compare_xml_dicts source_dict target_dict ignore_keys ppath =
     target_loop source_dict target_dict ignore_keys ppath
     @ source_loop source_dict target_dict ignore_keys ppath"
| "target_loop source_dict [] ignore_keys ppath = []"
| "target_loop source_dict ((key, val) # rest) ignore_keys ppath =
     (if key \<in> set ignore_keys then []
      else
        (case map_of source_dict key of
           None \<Rightarrow>
             [\<lparr>path = ppath @ ''.'' @ key, change_type = ''addition'',
               old_value = None, new_value = Some val\<rparr>]
         | Some sv \<Rightarrow>
             if \<not> py_eq sv val then
               (case (val, sv) of
                  (XDict vd, XDict sd) \<Rightarrow>
                    compare_xml_dicts sd vd ignore_keys (ppath @ ''.'' @ key)
                | _ \<Rightarrow>
                    [\<lparr>path = ppath @ ''.'' @ key, change_type = ''modification'',
                      old_value = Some sv, new_value = Some val\<rparr>])
             else []))
     @ target_loop source_dict rest ignore_keys ppath"

text \<open>
  \<open>create_formatted_xml_diff\<close>: one loop over the lines of each text. A line is matched
  against every part of a change's path split at the dots.
\<close>

fun xml_source_lines :: "string list \<Rightarrow> 'v change list \<Rightarrow> string list" where
  "xml_source_lines [] changes = []"
| "xml_source_lines (line # rest) changes =
     (let has_deletion =
            list_ex (\<lambda>change. change_type change = ''deletion'' \<and>
                       list_ex (\<lambda>part. py_in part line) (split CHR ''.'' (path change))) changes;
          has_modification =
            list_ex (\<lambda>change. change_type change = ''modification'' \<and>
                       list_ex (\<lambda>part. py_in part line) (split CHR ''.'' (path change))) changes
      in if has_deletion then ''- '' @ line
         else if has_modification then ''~ '' @ line
         else ''  '' @ line)
     # xml_source_lines rest changes"

fun xml_target_lines :: "string list \<Rightarrow> 'v change list \<Rightarrow> string list" where
  "xml_target_lines [] changes = []"
| "xml_target_lines (line # rest) changes =
     (let has_addition =
            list_ex (\<lambda>change. change_type change = ''addition'' \<and>
                       list_ex (\<lambda>part. py_in part line) (split CHR ''.'' (path change))) changes;
          has_modification =
            list_ex (\<lambda>change. change_type change = ''modification'' \<and>
                       list_ex (\<lambda>part. py_in part line) (split CHR ''.'' (path change))) changes
      in if has_addition then ''+ '' @ line
         else if has_modification then ''~ '' @ line
         else ''  '' @ line)
     # xml_target_lines rest changes"

definition create_formatted_xml_diff :: "string \<Rightarrow> string \<Rightarrow> 'v change list \<Rightarrow> formatted" where
  "create_formatted_xml_diff source_content target_content changes =
     (let source_lines = split (CHR 0x0A) source_content;
          target_lines = split (CHR 0x0A) target_content
      in \<lparr>source = xml_source_lines source_lines changes,
          target = xml_target_lines target_lines changes\<rparr>)"

text \<open>
  \<open>compare_xml\<close>. \<open>ET.fromstring\<close> belongs to the standard library and is a parameter:
  it returns the root element or raises. The \<open>strict\<close> argument is accepted and never read.
\<close>

type_synonym xml_parser = "string \<Rightarrow> exn + element"

definition compare_xml ::
  "xml_parser \<Rightarrow> string \<Rightarrow> string \<Rightarrow> string list \<Rightarrow> bool option \<Rightarrow> exn + xval result" where
  "compare_xml fromstring source_content target_content ignore_keys strict =
     reraise ''XML comparison failed: ''
       (case fromstring source_content of
          Inl e \<Rightarrow> Inl e
        | Inr source_root \<Rightarrow>
            (case fromstring target_content of
               Inl e \<Rightarrow> Inl e
             | Inr target_root \<Rightarrow>
                 (let source_dict = xml_to_dict source_root;
                      target_dict = xml_to_dict target_root;
                      changes = compare_xml_dicts source_dict target_dict ignore_keys ''root'';
                      formatted_diff =
                        create_formatted_xml_diff source_content target_content changes;
                      summary =
                        \<lparr>additions =
                           length (filter (\<lambda>change. change_type change = ''addition'') changes),
                         deletions =
                           length (filter (\<lambda>change. change_type change = ''deletion'') changes),
                         modifications =
                           length (filter (\<lambda>change. change_type change = ''modification'') changes)\<rparr>
                  in Inr \<lparr>summary = summary, diff = changes,
                          formatted_diff = formatted_diff\<rparr>)))"

section \<open>JSON and YAML: \<open>utils/json_diff.py\<close>, \<open>utils/yaml_diff.py\<close>\<close>

text \<open>
  The data \<open>json.loads\<close> and \<open>yaml.safe_load\<close> return. The comparators never look inside
  it: they hand it to \<open>DeepDiff\<close> and copy values out of the report. A float is
  represented by the real number it denotes (infinities and not-a-number have no
  representation); mapping keys are strings.
\<close>

datatype pyval =
    PNone
  | PBool bool
  | PInt int
  | PFloat real
  | PStr string
  | PList "pyval list"
  | PDict "(string \<times> pyval) list"

text \<open>
  \<open>value[key]\<close> with a string key: defined on a dict that has the key, \<open>KeyError\<close> on a
  dict that lacks it, \<open>TypeError\<close> on everything else.
\<close>

fun py_getitem :: "pyval \<Rightarrow> string \<Rightarrow> exn + pyval" where
  "py_getitem (PDict d) k = (case map_of d k of None \<Rightarrow> Inl (KeyError k) | Some v \<Rightarrow> Inr v)"
| "py_getitem (PList xs) k = Inl (TypeError ''list indices must be integers or slices, not str'')"
| "py_getitem (PStr s) k = Inl (TypeError ''string indices must be integers'')"
| "py_getitem v k = Inl (TypeError ''object is not subscriptable'')"

text \<open>
  One category of a \<open>DeepDiff\<close> report, as the library hands it out: either a collection
  of path strings (a list or an ordered set: it can be counted and iterated, and raises
  \<open>TypeError\<close> when subscripted with a path), or a dict from path to value. The report
  itself is a dict from category name to category.
\<close>

datatype items = Paths "string list" | PathDict "(string \<times> pyval) list"

type_synonym deepdiff = "(string \<times> items) list"

fun len :: "items \<Rightarrow> nat" where
  "len (Paths ps) = length ps"
| "len (PathDict d) = length d"

fun iter :: "items \<Rightarrow> string list" where
  "iter (Paths ps) = ps"
| "iter (PathDict d) = map fst d"

fun getitem :: "items \<Rightarrow> string \<Rightarrow> exn + pyval" where
  "getitem (Paths ps) p = Inl (TypeError ''list indices must be integers or slices, not str'')"
| "getitem (PathDict d) p = (case map_of d p of None \<Rightarrow> Inl (KeyError p) | Some v \<Rightarrow> Inr v)"

text \<open>\<open>diff.get(category, [])\<close>.\<close>

definition dd_get :: "deepdiff \<Rightarrow> string \<Rightarrow> items" where
  "dd_get ddiff category = (case map_of ddiff category of None \<Rightarrow> Paths [] | Some c \<Rightarrow> c)"

text \<open>
  The libraries as parameters: a loader takes the text and returns the data or raises;
  \<open>DeepDiff t1 t2 ignore_order exclude_paths\<close> returns the report or raises.
\<close>

type_synonym loader = "string \<Rightarrow> exn + pyval"

type_synonym differ = "pyval \<Rightarrow> pyval \<Rightarrow> bool \<Rightarrow> string list \<Rightarrow> exn + deepdiff"

text \<open>\<open>not strict\<close> for \<open>strict: Optional[bool]\<close>: \<open>None\<close> is falsy.\<close>

definition py_not :: "bool option \<Rightarrow> bool" where
  "py_not strict = (strict \<noteq> Some True)"

text \<open>
  \<open>create_formatted_json_diff\<close> and \<open>create_formatted_yaml_diff\<close>: a line is matched
  against each whole path of the report category; the path is not split.
\<close>

fun json_source_lines :: "string list \<Rightarrow> deepdiff \<Rightarrow> string list" where
  "json_source_lines [] ddiff = []"
| "json_source_lines (line # rest) ddiff =
     (if list_ex (\<lambda>key. py_in key line) (iter (dd_get ddiff ''dictionary_item_removed''))
        then ''- '' @ line
      else if list_ex (\<lambda>key. py_in key line) (iter (dd_get ddiff ''values_changed''))
        then ''~ '' @ line
      else ''  '' @ line)
     # json_source_lines rest ddiff"

fun json_target_lines :: "string list \<Rightarrow> deepdiff \<Rightarrow> string list" where
  "json_target_lines [] ddiff = []"
| "json_target_lines (line # rest) ddiff =
     (if list_ex (\<lambda>key. py_in key line) (iter (dd_get ddiff ''dictionary_item_added''))
        then ''+ '' @ line
      else if list_ex (\<lambda>key. py_in key line) (iter (dd_get ddiff ''values_changed''))
        then ''~ '' @ line
      else ''  '' @ line)
     # json_target_lines rest ddiff"

definition create_formatted_json_diff :: "string \<Rightarrow> string \<Rightarrow> deepdiff \<Rightarrow> formatted" where
  "create_formatted_json_diff source_content target_content ddiff =
     (let source_lines = split (CHR 0x0A) source_content;
          target_lines = split (CHR 0x0A) target_content
      in \<lparr>source = json_source_lines source_lines ddiff,
          target = json_target_lines target_lines ddiff\<rparr>)"

fun yaml_source_lines :: "string list \<Rightarrow> deepdiff \<Rightarrow> string list" where
  "yaml_source_lines [] ddiff = []"
| "yaml_source_lines (line # rest) ddiff =
     (if list_ex (\<lambda>key. py_in key line) (iter (dd_get ddiff ''dictionary_item_removed''))
        then ''- '' @ line
      else if list_ex (\<lambda>key. py_in key line) (iter (dd_get ddiff ''values_changed''))
        then ''~ '' @ line
      else ''  '' @ line)
     # yaml_source_lines rest ddiff"

fun yaml_target_lines :: "string list \<Rightarrow> deepdiff \<Rightarrow> string list" where
  "yaml_target_lines [] ddiff = []"
| "yaml_target_lines (line # rest) ddiff =
     (if list_ex (\<lambda>key. py_in key line) (iter (dd_get ddiff ''dictionary_item_added''))
        then ''+ '' @ line
      else if list_ex (\<lambda>key. py_in key line) (iter (dd_get ddiff ''values_changed''))
        then ''~ '' @ line
      else ''  '' @ line)
     # yaml_target_lines rest ddiff"

definition create_formatted_yaml_diff :: "string \<Rightarrow> string \<Rightarrow> deepdiff \<Rightarrow> formatted" where
  "create_formatted_yaml_diff source_content target_content ddiff =
     (let source_lines = split (CHR 0x0A) source_content;
          target_lines = split (CHR 0x0A) target_content
      in \<lparr>source = yaml_source_lines source_lines ddiff,
          target = yaml_target_lines target_lines ddiff\<rparr>)"

text \<open>
  The three loops that build \<open>detailed_diff\<close>. Each takes the category and the paths
  still to visit; \<open>diff[category][path]\<close> may raise, which ends the loop.
\<close>

fun additions_loop :: "items \<Rightarrow> string list \<Rightarrow> exn + pyval change list" where
  "additions_loop category [] = Inr []"
| "additions_loop category (p # rest) =
     (case getitem category p of
        Inl e \<Rightarrow> Inl e
      | Inr v \<Rightarrow>
          (case additions_loop category rest of
             Inl e \<Rightarrow> Inl e
           | Inr cs \<Rightarrow>
               Inr (\<lparr>path = p, change_type = ''addition'',
                     old_value = None, new_value = Some v\<rparr> # cs)))"

fun deletions_loop :: "items \<Rightarrow> string list \<Rightarrow> exn + pyval change list" where
  "deletions_loop category [] = Inr []"
| "deletions_loop category (p # rest) =
     (case getitem category p of
        Inl e \<Rightarrow> Inl e
      | Inr v \<Rightarrow>
          (case deletions_loop category rest of
             Inl e \<Rightarrow> Inl e
           | Inr cs \<Rightarrow>
               Inr (\<lparr>path = p, change_type = ''deletion'',
                     old_value = Some v, new_value = None\<rparr> # cs)))"

fun modifications_loop :: "items \<Rightarrow> string list \<Rightarrow> exn + pyval change list" where
  "modifications_loop category [] = Inr []"
| "modifications_loop category (p # rest) =
     (case getitem category p of
        Inl e \<Rightarrow> Inl e
      | Inr entry \<Rightarrow>
          (case py_getitem entry ''old_value'' of
             Inl e \<Rightarrow> Inl e
           | Inr old \<Rightarrow>
               (case py_getitem entry ''new_value'' of
                  Inl e \<Rightarrow> Inl e
                | Inr new \<Rightarrow>
                    (case modifications_loop category rest of
                       Inl e \<Rightarrow> Inl e
                     | Inr cs \<Rightarrow>
                         Inr (\<lparr>path = p, change_type = ''modification'',
                               old_value = Some old, new_value = Some new\<rparr> # cs)))))"

text \<open>
  \<open>compare_json\<close> and \<open>compare_yaml\<close>. The whole body sits in the \<open>try\<close>; the report is
  asked for with \<open>ignore_order = not strict\<close> and \<open>exclude_paths = ignore_keys\<close>.
\<close>

definition compare_json ::
  "loader \<Rightarrow> differ \<Rightarrow> string \<Rightarrow> string \<Rightarrow> string list \<Rightarrow> bool option
     \<Rightarrow> exn + pyval result" where
  "compare_json loads DeepDiff source_content target_content ignore_keys strict =
     reraise ''JSON comparison failed: ''
       (case loads source_content of
          Inl e \<Rightarrow> Inl e
        | Inr source_data \<Rightarrow>
            (case loads target_content of
               Inl e \<Rightarrow> Inl e
             | Inr target_data \<Rightarrow>
                 (case DeepDiff source_data target_data (py_not strict) ignore_keys of
                    Inl e \<Rightarrow> Inl e
                  | Inr ddiff \<Rightarrow>
                      (let formatted_diff =
                             create_formatted_json_diff source_content target_content ddiff;
                           summary =
                             \<lparr>additions =
                                len (dd_get ddiff ''dictionary_item_added'')
                                + len (dd_get ddiff ''iterable_item_added''),
                              deletions =
                                len (dd_get ddiff ''dictionary_item_removed'')
                                + len (dd_get ddiff ''iterable_item_removed''),
                              modifications = len (dd_get ddiff ''values_changed'')\<rparr>
                       in case additions_loop (dd_get ddiff ''dictionary_item_added'')
                                 (iter (dd_get ddiff ''dictionary_item_added'')) of
                            Inl e \<Rightarrow> Inl e
                          | Inr added \<Rightarrow>
                              (case deletions_loop (dd_get ddiff ''dictionary_item_removed'')
                                      (iter (dd_get ddiff ''dictionary_item_removed'')) of
                                 Inl e \<Rightarrow> Inl e
                               | Inr removed \<Rightarrow>
                                   (case modifications_loop (dd_get ddiff ''values_changed'')
                                           (iter (dd_get ddiff ''values_changed'')) of
                                      Inl e \<Rightarrow> Inl e
                                    | Inr changed \<Rightarrow>
                                        Inr \<lparr>summary = summary,
                                             diff = added @ removed @ changed,
                                             formatted_diff = formatted_diff\<rparr>))))))"

definition compare_yaml ::
  "loader \<Rightarrow> differ \<Rightarrow> string \<Rightarrow> string \<Rightarrow> string list \<Rightarrow> bool option
     \<Rightarrow> exn + pyval result" where
  "compare_yaml safe_load DeepDiff source_content target_content ignore_keys strict =
     reraise ''YAML comparison failed: ''
       (case safe_load source_content of
          Inl e \<Rightarrow> Inl e
        | Inr source_data \<Rightarrow>
            (case safe_load target_content of
               Inl e \<Rightarrow> Inl e
             | Inr target_data \<Rightarrow>
                 (case DeepDiff source_data target_data (py_not strict) ignore_keys of
                    Inl e \<Rightarrow> Inl e
                  | Inr ddiff \<Rightarrow>
                      (let formatted_diff =
                             create_formatted_yaml_diff source_content target_content ddiff;
                           summary =
                             \<lparr>additions =
                                len (dd_get ddiff ''dictionary_item_added'')
                                + len (dd_get ddiff ''iterable_item_added''),
                              deletions =
                                len (dd_get ddiff ''dictionary_item_removed'')
                                + len (dd_get ddiff ''iterable_item_removed''),
                              modifications = len (dd_get ddiff ''values_changed'')\<rparr>
                       in case additions_loop (dd_get ddiff ''dictionary_item_added'')
                                 (iter (dd_get ddiff ''dictionary_item_added'')) of
                            Inl e \<Rightarrow> Inl e
                          | Inr added \<Rightarrow>
                              (case deletions_loop (dd_get ddiff ''dictionary_item_removed'')
                                      (iter (dd_get ddiff ''dictionary_item_removed'')) of
                                 Inl e \<Rightarrow> Inl e
                               | Inr removed \<Rightarrow>
                                   (case modifications_loop (dd_get ddiff ''values_changed'')
                                           (iter (dd_get ddiff ''values_changed'')) of
                                      Inl e \<Rightarrow> Inl e
                                    | Inr changed \<Rightarrow>
                                        Inr \<lparr>summary = summary,
                                             diff = added @ removed @ changed,
                                             formatted_diff = formatted_diff\<rparr>))))))"

section \<open>The endpoint: \<open>main.py\<close>\<close>

record compare_request =
  req_source_content :: string
  req_target_content :: string
  req_format :: string
  req_ignore_keys :: "string list option"
  req_strict :: "bool option"

record libraries =
  json_loads :: loader
  yaml_safe_load :: loader
  deep_diff :: differ
  et_fromstring :: xml_parser

datatype response = DeepDiffResponse "pyval result" | XmlResponse "xval result"

text \<open>The \<open>except\<close> clauses of \<open>compare_files\<close>, tried in order.\<close>

fun handler :: "exn \<Rightarrow> exn" where
  "handler (JSONDecodeError m) =
     HTTPException 400 (''Invalid JSON format: '' @ str_exn (JSONDecodeError m))"
| "handler (YAMLError m) =
     HTTPException 400 (''Invalid YAML format: '' @ str_exn (YAMLError m))"
| "handler (ParseError m) =
     HTTPException 400 (''Invalid XML format: '' @ str_exn (ParseError m))"
| "handler e = HTTPException 500 (''Comparison failed: '' @ str_exn e)"

definition compare_files :: "libraries \<Rightarrow> compare_request \<Rightarrow> exn + response" where
  "compare_files lib request =
     (let source_content = strip (req_source_content request);
          target_content = strip (req_target_content request);
          file_format = lower (req_format request);
          ignore_keys = (case req_ignore_keys request of None \<Rightarrow> [] | Some ks \<Rightarrow> ks);
          strict = req_strict request;
          result =
            (if file_format = ''json'' then
               map_sum id DeepDiffResponse
                 (compare_json (json_loads lib) (deep_diff lib)
                    source_content target_content ignore_keys strict)
             else if file_format = ''yaml'' then
               map_sum id DeepDiffResponse
                 (compare_yaml (yaml_safe_load lib) (deep_diff lib)
                    source_content target_content ignore_keys strict)
             else if file_format = ''xml'' then
               map_sum id XmlResponse
                 (compare_xml (et_fromstring lib)
                    source_content target_content ignore_keys strict)
             else Inl (HTTPException 400 (''Unsupported format: '' @ file_format)))
      in case result of Inl e \<Rightarrow> Inl (handler e) | Inr r \<Rightarrow> Inr r)"

section \<open>Notions used in the statements\<close>

subsection \<open>Well-formed dict values\<close>


subsection \<open>What a dict holds under a key, from the occurrences in document order\<close>

text \<open>
  No occurrence: the key is absent. One occurrence: the entry itself. Two or more: a
  list of the entries, first occurrence first.
\<close>

definition tag_entry :: "xval list \<Rightarrow> xval option" where
  "tag_entry vs = (case vs of [] \<Rightarrow> None | [v] \<Rightarrow> Some v | _ \<Rightarrow> Some (XList vs))"

fun is_xlist :: "xval \<Rightarrow> bool" where
  "is_xlist (XList xs) = True"
| "is_xlist (XStr s) = False"
| "is_xlist (XDict d) = False"

text \<open>The element's own stripped text, which is stored under the key \<open>text\<close>.\<close>

definition own_text :: "element \<Rightarrow> string \<Rightarrow> xval list" where
  "own_text e k =
     (case elem_text e of
        None \<Rightarrow> []
      | Some s \<Rightarrow> if k = ''text'' \<and> s \<noteq> [] \<and> strip s \<noteq> [] then [XStr (strip s)] else [])"

subsection \<open>Line markers in terms of change records\<close>

text \<open>
  \<open>touches parts kind changes line\<close>: some record of that kind has a part of its path
  occurring in the line. \<open>path_fragments\<close> splits a path at its dots; \<open>whole_path\<close> takes
  the path as one piece.
\<close>

definition touches :: "(string \<Rightarrow> string list) \<Rightarrow> string \<Rightarrow> 'v change list \<Rightarrow> string \<Rightarrow> bool" where
  "touches parts kind changes line =
     list_ex (\<lambda>c. change_type c = kind \<and> list_ex (\<lambda>f. sublist f line) (parts (path c))) changes"

definition path_fragments :: "string \<Rightarrow> string list" where
  "path_fragments p = split CHR ''.'' p"

definition whole_path :: "string \<Rightarrow> string list" where
  "whole_path p = [p]"

definition source_mark :: "(string \<Rightarrow> string list) \<Rightarrow> 'v change list \<Rightarrow> string \<Rightarrow> string" where
  "source_mark parts changes line =
     (if touches parts ''deletion'' changes line then ''-''
      else if touches parts ''modification'' changes line then ''~''
      else '' '')"

definition target_mark :: "(string \<Rightarrow> string list) \<Rightarrow> 'v change list \<Rightarrow> string \<Rightarrow> string" where
  "target_mark parts changes line =
     (if touches parts ''addition'' changes line then ''+''
      else if touches parts ''modification'' changes line then ''~''
      else '' '')"

definition annotate :: "('v change list \<Rightarrow> string \<Rightarrow> string) \<Rightarrow> 'v change list \<Rightarrow> string \<Rightarrow> string list" where
  "annotate mark changes content =
     map (\<lambda>line. mark changes line @ '' '' @ line) (split (CHR 0x0A) content)"

subsection \<open>The tally of a change list\<close>

definition tally :: "'v change list \<Rightarrow> summary" where
  "tally changes =
     \<lparr>additions = length (filter (\<lambda>c. change_type c = ''addition'') changes),
      deletions = length (filter (\<lambda>c. change_type c = ''deletion'') changes),
      modifications = length (filter (\<lambda>c. change_type c = ''modification'') changes)\<rparr>"

section \<open>The libraries on the documents of the scenarios\<close>

text \<open>
  A library function is given here by the finite table of what it returns on the texts
  and data used below; outside the table a loader or parser raises its parse error, and
  the differ reports nothing for identical data and raises otherwise.
\<close>

definition loader_of :: "(string \<times> pyval) list \<Rightarrow> exn \<Rightarrow> loader" where
  "loader_of tab err s = (case map_of tab s of Some v \<Rightarrow> Inr v | None \<Rightarrow> Inl err)"

definition parser_of :: "(string \<times> element) list \<Rightarrow> exn \<Rightarrow> xml_parser" where
  "parser_of tab err s = (case map_of tab s of Some v \<Rightarrow> Inr v | None \<Rightarrow> Inl err)"

definition differ_of :: "((pyval \<times> pyval \<times> bool \<times> string list) \<times> deepdiff) list \<Rightarrow> differ" where
  "differ_of tab t1 t2 ignore_order exclude_paths =
     (if t1 = t2 then Inr []
      else (case map_of tab (t1, t2, ignore_order, exclude_paths) of
              Some r \<Rightarrow> Inr r
            | None \<Rightarrow> Inl (Exception ''not tabulated'')))"

text \<open>
  \<open>json.loads\<close> on the JSON documents used below. The malformed text used below is
  \<open>{"a":}\<close>, which the parser rejects at its sixth column with the message given here.
\<close>

definition json_loads_ex :: loader where
  \<open>json_loads_ex =
     loader_of
       [(''{"a":1,"b":2}'', PDict [(''a'', PInt 1), (''b'', PInt 2)]),
        (''{"a":1,"b":3,"c":4}'', PDict [(''a'', PInt 1), (''b'', PInt 3), (''c'', PInt 4)]),
        (''{"a":[1]}'', PDict [(''a'', PList [PInt 1])]),
        (''{"a":[1,2]}'', PDict [(''a'', PList [PInt 1, PInt 2])]),
        (''{"a":{"secret":1}}'', PDict [(''a'', PDict [(''secret'', PInt 1)])]),
        (''{"a":{"secret":2}}'', PDict [(''a'', PDict [(''secret'', PInt 2)])]),
        (''{"k":[1,2,3]}'', PDict [(''k'', PList [PInt 1, PInt 2, PInt 3])]),
        (''{"k":[3,2,1]}'', PDict [(''k'', PList [PInt 3, PInt 2, PInt 1])]),
        (''{"a":1}'', PDict [(''a'', PInt 1)]),
        (''{"a":1.0}'', PDict [(''a'', PFloat 1)]),
        (''{"a.b": 1, "c": "b']"}'', PDict [(''a.b'', PInt 1), (''c'', PStr ''b']'')]),
        (''{"a.b": 2, "c": "b']"}'', PDict [(''a.b'', PInt 2), (''c'', PStr ''b']'')])]
       (JSONDecodeError ''Expecting value: line 1 column 6 (char 5)'')\<close>

text \<open>
  The five lines \<open>yaml.safe_load\<close> raises with on the text \<open>a: [\<close>, whose flow sequence
  is still open at the end of the stream.
\<close>

definition yaml_error_text :: string where
  \<open>yaml_error_text =
     ''while parsing a flow node'' @ [CHR 0x0A]
     @ ''expected the node content, but found '' @ [CHR 0x27] @ ''<stream end>'' @ [CHR 0x27]
     @ [CHR 0x0A]
     @ ''  in "<unicode string>", line 1, column 5:'' @ [CHR 0x0A]
     @ ''    a: ['' @ [CHR 0x0A]
     @ ''        ^''\<close>

definition yaml_safe_load_ex :: loader where
  \<open>yaml_safe_load_ex =
     loader_of
       [(''a: 1'', PDict [(''a'', PInt 1)]),
        (''a: 1.0'', PDict [(''a'', PFloat 1)]),
        (''k: [1, 2, 3]'', PDict [(''k'', PList [PInt 1, PInt 2, PInt 3])]),
        (''k: [3, 2, 1]'', PDict [(''k'', PList [PInt 3, PInt 2, PInt 1])])]
       (YAMLError yaml_error_text)\<close>

definition et_fromstring_ex :: xml_parser where
  \<open>et_fromstring_ex =
     parser_of
       [(''<root><item>1</item></root>'',
           Element ''root'' None [Element ''item'' (Some ''1'') []]),
        (''<root><item>1</item><item>2</item></root>'',
           Element ''root'' None
             [Element ''item'' (Some ''1'') [], Element ''item'' (Some ''2'') []]),
        (''<r><i>1</i><i>2</i><i>3</i></r>'',
           Element ''r'' None
             [Element ''i'' (Some ''1'') [], Element ''i'' (Some ''2'') [],
              Element ''i'' (Some ''3'') []]),
        (''<r><i>3</i><i>2</i><i>1</i></r>'',
           Element ''r'' None
             [Element ''i'' (Some ''3'') [], Element ''i'' (Some ''2'') [],
              Element ''i'' (Some ''1'') []])]
       (ParseError ''no element found: line 1, column 3'')\<close>

text \<open>
  \<open>DeepDiff\<close> as called by the comparators (default verbosity): added and removed dict
  items come as a collection of paths, changed values and added list items as a dict
  from path to detail; a change of type is reported under \<open>type_changes\<close> (the two
  classes are written here as their names); an \<open>exclude_paths\<close> entry excludes the item
  at that very path, so the bare key \<open>secret\<close> does not exclude \<open>root['a']['secret']\<close>;
  with \<open>ignore_order\<close> a list and its reversal do not differ.
\<close>

definition deep_diff_ex :: differ where
  \<open>deep_diff_ex =
     differ_of
       [((PDict [(''a'', PInt 1), (''b'', PInt 2)],
          PDict [(''a'', PInt 1), (''b'', PInt 3), (''c'', PInt 4)], False, []),
         [(''dictionary_item_added'', Paths [''root['c']'']),
          (''values_changed'',
             PathDict [(''root['b']'', PDict [(''new_value'', PInt 3), (''old_value'', PInt 2)])])]),
        ((PDict [(''a'', PList [PInt 1])], PDict [(''a'', PList [PInt 1, PInt 2])], False, []),
         [(''iterable_item_added'', PathDict [(''root['a'][1]'', PInt 2)])]),
        ((PDict [(''a'', PDict [(''secret'', PInt 1)])],
          PDict [(''a'', PDict [(''secret'', PInt 2)])], False, [''secret'']),
         [(''values_changed'',
             PathDict [(''root['a']['secret']'',
                        PDict [(''new_value'', PInt 2), (''old_value'', PInt 1)])])]),
        ((PDict [(''k'', PList [PInt 1, PInt 2, PInt 3])],
          PDict [(''k'', PList [PInt 3, PInt 2, PInt 1])], False, []),
         [(''values_changed'',
             PathDict [(''root['k'][0]'', PDict [(''new_value'', PInt 3), (''old_value'', PInt 1)]),
                       (''root['k'][2]'', PDict [(''new_value'', PInt 1), (''old_value'', PInt 3)])])]),
        ((PDict [(''k'', PList [PInt 1, PInt 2, PInt 3])],
          PDict [(''k'', PList [PInt 3, PInt 2, PInt 1])], True, []),
         []),
        ((PDict [(''a'', PInt 1)], PDict [(''a'', PFloat 1)], False, []),
         [(''type_changes'',
             PathDict [(''root['a']'',
                        PDict [(''old_type'', PStr ''int''), (''new_type'', PStr ''float''),
                               (''old_value'', PInt 1), (''new_value'', PFloat 1)])])]),
        ((PDict [(''a.b'', PInt 1), (''c'', PStr ''b']'')],
          PDict [(''a.b'', PInt 2), (''c'', PStr ''b']'')], False, []),
         [(''values_changed'',
             PathDict [(''root['a.b']'', PDict [(''new_value'', PInt 2), (''old_value'', PInt 1)])])])]\<close>

definition lib_ex :: libraries where
  "lib_ex =
     \<lparr>json_loads = json_loads_ex, yaml_safe_load = yaml_safe_load_ex,
      deep_diff = deep_diff_ex, et_fromstring = et_fromstring_ex\<rparr>"

section \<open>Parse errors\<close>

lemma lower_formats:
  "lower ''json'' = ''json''" "lower ''yaml'' = ''yaml''" "lower ''xml'' = ''xml''"
  by (simp_all add: lower_def lower_char_def)

lemma strip_examples:
  \<open>strip ''{"a":}'' = ''{"a":}''\<close> \<open>strip ''{"a":1}'' = ''{"a":1}''\<close>
  \<open>strip ''<a>'' = ''<a>''\<close> \<open>strip ''a: ['' = ''a: [''\<close> \<open>strip ''a: 1'' = ''a: 1''\<close>
  by (simp_all add: strip_def isspace_def)

text \<open>
  Whatever a comparator raises is a plain \<open>Exception\<close> with the comparator's prefix: the
  class of the original exception is gone once it has passed the comparator's \<open>except\<close>.
\<close>

lemma compare_json_raises_Exception:
  "compare_json loads D s t ign st = Inl e \<Longrightarrow>
     \<exists>m. e = Exception (''JSON comparison failed: '' @ m)"
  unfolding compare_json_def reraise_def by (auto split: sum.splits)

lemma compare_yaml_raises_Exception:
  "compare_yaml safe_load D s t ign st = Inl e \<Longrightarrow>
     \<exists>m. e = Exception (''YAML comparison failed: '' @ m)"
  unfolding compare_yaml_def reraise_def by (auto split: sum.splits)

lemma compare_xml_raises_Exception:
  "compare_xml fromstring s t ign st = Inl e \<Longrightarrow>
     \<exists>m. e = Exception (''XML comparison failed: '' @ m)"
  unfolding compare_xml_def reraise_def by (auto split: sum.splits)

text \<open>
  C1. The claim: a malformed text makes the comparison fail with a parse error of the
  format, told apart from an internal error, the format's parse exception leaving the
  comparator uncaught. The code: when the loader raises its parse exception
  (\<open>JSONDecodeError\<close>, \<open>YAMLError\<close>, \<open>ParseError\<close>) on the source text, the comparator
  raises a plain \<open>Exception\<close> instead, and the endpoint answers with status 500 and
  "Comparison failed", the answer it gives to every internal error; its three handlers
  for status 400 are not reached.
\<close>

theorem parse_errors_leave_as_plain_exceptions:
  "(json_loads lib (strip s1) = Inl (JSONDecodeError m1) \<longrightarrow>
      compare_json (json_loads lib) (deep_diff lib) (strip s1) (strip t1) ign st
        = Inl (Exception (''JSON comparison failed: '' @ m1))
    \<and> compare_files lib \<lparr>req_source_content = s1, req_target_content = t1,
          req_format = ''json'', req_ignore_keys = Some ign, req_strict = st\<rparr>
        = Inl (HTTPException 500 (''Comparison failed: JSON comparison failed: '' @ m1)))
 \<and> (yaml_safe_load lib (strip s2) = Inl (YAMLError m2) \<longrightarrow>
      compare_yaml (yaml_safe_load lib) (deep_diff lib) (strip s2) (strip t2) ign st
        = Inl (Exception (''YAML comparison failed: '' @ m2))
    \<and> compare_files lib \<lparr>req_source_content = s2, req_target_content = t2,
          req_format = ''yaml'', req_ignore_keys = Some ign, req_strict = st\<rparr>
        = Inl (HTTPException 500 (''Comparison failed: YAML comparison failed: '' @ m2)))
 \<and> (et_fromstring lib (strip s3) = Inl (ParseError m3) \<longrightarrow>
      compare_xml (et_fromstring lib) (strip s3) (strip t3) ign st
        = Inl (Exception (''XML comparison failed: '' @ m3))
    \<and> compare_files lib \<lparr>req_source_content = s3, req_target_content = t3,
          req_format = ''xml'', req_ignore_keys = Some ign, req_strict = st\<rparr>
        = Inl (HTTPException 500 (''Comparison failed: XML comparison failed: '' @ m3)))"
  by (simp add: compare_files_def compare_json_def compare_yaml_def compare_xml_def reraise_def
        lower_formats Let_def)

theorem parse_errors_leave_as_plain_exceptions_witness:
  \<open>json_loads lib_ex (strip ''{"a":}'')
     = Inl (JSONDecodeError ''Expecting value: line 1 column 6 (char 5)'')
   \<and> compare_json (json_loads lib_ex) (deep_diff lib_ex)
        (strip ''{"a":}'') (strip ''{"a":1}'') [] (Some True)
     = Inl (Exception ''JSON comparison failed: Expecting value: line 1 column 6 (char 5)'')
   \<and> compare_files lib_ex
        \<lparr>req_source_content = ''{"a":}'', req_target_content = ''{"a":1}'',
         req_format = ''json'', req_ignore_keys = Some [], req_strict = Some True\<rparr>
     = Inl (HTTPException 500
         ''Comparison failed: JSON comparison failed: Expecting value: line 1 column 6 (char 5)'')
   \<and> yaml_safe_load lib_ex (strip ''a: ['') = Inl (YAMLError yaml_error_text)
   \<and> compare_files lib_ex
        \<lparr>req_source_content = ''a: ['', req_target_content = ''a: 1'',
         req_format = ''yaml'', req_ignore_keys = Some [], req_strict = Some True\<rparr>
     = Inl (HTTPException 500
         (''Comparison failed: YAML comparison failed: '' @ yaml_error_text))
   \<and> et_fromstring lib_ex (strip ''<a>'') = Inl (ParseError ''no element found: line 1, column 3'')
   \<and> compare_files lib_ex
        \<lparr>req_source_content = ''<a>'', req_target_content = ''<a>'',
         req_format = ''xml'', req_ignore_keys = Some [], req_strict = Some True\<rparr>
     = Inl (HTTPException 500
         ''Comparison failed: XML comparison failed: no element found: line 1, column 3'')\<close>
proof -
  have j: \<open>json_loads lib_ex (strip ''{"a":}'')
             = Inl (JSONDecodeError ''Expecting value: line 1 column 6 (char 5)'')\<close>
    by (simp add: lib_ex_def json_loads_ex_def loader_of_def strip_examples)
  have y: \<open>yaml_safe_load lib_ex (strip ''a: ['') = Inl (YAMLError yaml_error_text)\<close>
    by (simp add: lib_ex_def yaml_safe_load_ex_def loader_of_def strip_examples)
  have x: \<open>et_fromstring lib_ex (strip ''<a>'') = Inl (ParseError ''no element found: line 1, column 3'')\<close>
    by (simp add: lib_ex_def et_fromstring_ex_def parser_of_def strip_examples)
  show ?thesis
    using j y x
      parse_errors_leave_as_plain_exceptions
        [where lib = lib_ex and ign = "[]" and st = "Some True"
           and ?s1.0 = \<open>''{"a":}''\<close> and ?t1.0 = \<open>''{"a":1}''\<close>
           and ?m1.0 = \<open>''Expecting value: line 1 column 6 (char 5)''\<close>
           and ?s2.0 = \<open>''a: [''\<close> and ?t2.0 = \<open>''a: 1''\<close>
           and ?m2.0 = yaml_error_text
           and ?s3.0 = \<open>''<a>''\<close> and ?t3.0 = \<open>''<a>''\<close>
           and ?m3.0 = \<open>''no element found: line 1, column 3''\<close>]
    by simp
qed

section \<open>Dicts built from XML\<close>








section \<open>Comparing a dict with itself\<close>







section \<open>Reports without entries\<close>


lemma json_source_lines_no_paths:
  "iter (dd_get report ''dictionary_item_removed'') = [] \<Longrightarrow>
   iter (dd_get report ''values_changed'') = [] \<Longrightarrow>
   json_source_lines ls report = map (\<lambda>l. ''  '' @ l) ls"
  by (induction ls) auto

lemma json_target_lines_no_paths:
  "iter (dd_get report ''dictionary_item_added'') = [] \<Longrightarrow>
   iter (dd_get report ''values_changed'') = [] \<Longrightarrow>
   json_target_lines ls report = map (\<lambda>l. ''  '' @ l) ls"
  by (induction ls) auto

lemma yaml_source_lines_no_paths:
  "iter (dd_get report ''dictionary_item_removed'') = [] \<Longrightarrow>
   iter (dd_get report ''values_changed'') = [] \<Longrightarrow>
   yaml_source_lines ls report = map (\<lambda>l. ''  '' @ l) ls"
  by (induction ls) auto

lemma yaml_target_lines_no_paths:
  "iter (dd_get report ''dictionary_item_added'') = [] \<Longrightarrow>
   iter (dd_get report ''values_changed'') = [] \<Longrightarrow>
   yaml_target_lines ls report = map (\<lambda>l. ''  '' @ l) ls"
  by (induction ls) auto




lemma deep_diff_ex_same: "deep_diff_ex d d io ex = Inr []"
  by (simp add: deep_diff_ex_def differ_of_def)


section \<open>Repeated tags\<close>

lemma children_loop_entries:
  "(\<And>k. map_of result k = tag_entry (E k)) \<Longrightarrow> (\<And>k v. v \<in> set (E k) \<Longrightarrow> \<not> is_xlist v) \<Longrightarrow>
   map_of (children_loop cs result) k
     = tag_entry (E k @ map (\<lambda>c. XDict (xml_to_dict c)) (filter (\<lambda>c. tag c = k) cs))"
proof (induction cs arbitrary: result E)
  case Nil
  then show ?case by simp
next
  case (Cons c cs)
  obtain t tx ccs where c: "c = Element t tx ccs" by (cases c)
  define cd where "cd = XDict (xml_to_dict c)"
  define E' where "E' = E(t := E t @ [cd])"
  define nv where "nv = (case map_of result t of
       Some v \<Rightarrow> (case v of XList xs \<Rightarrow> XList (xs @ [cd]) | _ \<Rightarrow> XList [v, cd])
     | None \<Rightarrow> cd)"
  have step: "children_loop (c # cs) result = children_loop cs (dict_set result t nv)"
    unfolding c nv_def cd_def c by (simp add: Let_def split: option.splits del: xml_to_dict.simps)
  have nv: "Some nv = tag_entry (E t @ [cd])"
  proof (cases "E t")
    case Nil
    then show ?thesis using Cons.prems(1)[of t] by (simp add: nv_def tag_entry_def)
  next
    case (Cons v vs)
    note Ev = Cons
    show ?thesis
    proof (cases vs)
      case Nil
      have "\<not> is_xlist v" using Cons.prems(2)[of v t] Ev by simp
      then show ?thesis using Cons.prems(1)[of t] Ev Nil
        by (cases v) (simp_all add: nv_def tag_entry_def)
    next
      case (Cons w ws)
      then show ?thesis using Cons.prems(1)[of t] Ev
        by (simp add: nv_def tag_entry_def)
    qed
  qed
  have m: "\<And>k. map_of (dict_set result t nv) k = tag_entry (E' k)"
    using nv Cons.prems(1) by (simp add: dict_set_def update_conv' E'_def)
  have n: "\<And>k v. v \<in> set (E' k) \<Longrightarrow> \<not> is_xlist v"
    using Cons.prems(2) by (auto simp: E'_def cd_def split: if_splits)
  have "map_of (children_loop cs (dict_set result t nv)) k
      = tag_entry (E' k @ map (\<lambda>c. XDict (xml_to_dict c)) (filter (\<lambda>c. tag c = k) cs))"
    by (rule Cons.IH[OF m n])
  then show ?case unfolding step by (simp add: E'_def c cd_def del: xml_to_dict.simps)
qed

lemma xml_to_dict_entries:
  "map_of (xml_to_dict e) k
     = tag_entry (own_text e k
         @ map (\<lambda>c. XDict (xml_to_dict c)) (filter (\<lambda>c. tag c = k) (children e)))"
proof -
  obtain t tx cs where e: "e = Element t tx cs" by (cases e)
  define r0 where "r0 = (case tx of None \<Rightarrow> []
     | Some s \<Rightarrow> if s \<noteq> [] \<and> strip s \<noteq> [] then [(''text'', XStr (strip s))] else [])"
  have a: "\<And>k. map_of r0 k = tag_entry (own_text e k)"
    by (auto simp: r0_def own_text_def tag_entry_def e split: option.splits)
  have b: "\<And>k v. v \<in> set (own_text e k) \<Longrightarrow> \<not> is_xlist v"
    by (auto simp: own_text_def e split: option.splits if_splits)
  have "xml_to_dict e = children_loop cs r0" by (simp add: e r0_def)
  then show ?thesis
    using children_loop_entries[where result=r0 and E="own_text e" and cs=cs and k=k, OF a b]
    by (simp add: e)
qed

lemma strip_digits: "strip ''1'' = ''1''" "strip ''2'' = ''2''" "strip ''3'' = ''3''"
  by (simp_all add: strip_def isspace_def)

text \<open>
  C8. Under every key the dict of an element holds the element's entries for that key
  in document order: nothing when there is none, the entry itself when there is one, and
  a list of all of them, first occurrence first, when the tag repeats. For the source
  \<open><root><item>1</item></root>\<close> and the target \<open><root><item>1</item><item>2</item></root>\<close>
  the comparison therefore sees a dict against a list of two dicts and yields exactly
  one modification, at \<open>root.item\<close> (as long as \<open>item\<close> is not an ignored key).
\<close>

theorem repeated_tags_keep_document_order:
  \<open>map_of (xml_to_dict e) k
     = tag_entry (own_text e k
         @ map (\<lambda>c. XDict (xml_to_dict c)) (filter (\<lambda>c. tag c = k) (children e)))
   \<and> (fromstring ''<root><item>1</item></root>''
         = Inr (Element ''root'' None [Element ''item'' (Some ''1'') []])
      \<and> fromstring ''<root><item>1</item><item>2</item></root>''
         = Inr (Element ''root'' None
                  [Element ''item'' (Some ''1'') [], Element ''item'' (Some ''2'') []])
      \<and> ''item'' \<notin> set ign \<longrightarrow>
      compare_xml fromstring ''<root><item>1</item></root>''
          ''<root><item>1</item><item>2</item></root>'' ign st
        = Inr \<lparr>summary = \<lparr>additions = 0, deletions = 0, modifications = 1\<rparr>,
               diff = [\<lparr>path = ''root.item'', change_type = ''modification'',
                        old_value = Some (XDict [(''text'', XStr ''1'')]),
                        new_value = Some (XList [XDict [(''text'', XStr ''1'')],
                                                XDict [(''text'', XStr ''2'')]])\<rparr>],
               formatted_diff =
                 \<lparr>source = [''~ <root><item>1</item></root>''],
                  target = [''~ <root><item>1</item><item>2</item></root>'']\<rparr>\<rparr>)\<close>
proof -
  have sub: \<open>sublist ''root'' ''<root><item>1</item></root>''\<close>
    \<open>sublist ''root'' ''<root><item>1</item><item>2</item></root>''\<close>
    by (simp_all add: sublist_Cons_right)
  have general: "map_of (xml_to_dict e) k
     = tag_entry (own_text e k
         @ map (\<lambda>c. XDict (xml_to_dict c)) (filter (\<lambda>c. tag c = k) (children e)))"
    by (rule xml_to_dict_entries)
  have scenario: \<open>fromstring ''<root><item>1</item></root>''
         = Inr (Element ''root'' None [Element ''item'' (Some ''1'') []])
      \<and> fromstring ''<root><item>1</item><item>2</item></root>''
         = Inr (Element ''root'' None
                  [Element ''item'' (Some ''1'') [], Element ''item'' (Some ''2'') []])
      \<and> ''item'' \<notin> set ign \<longrightarrow>
      compare_xml fromstring ''<root><item>1</item></root>''
          ''<root><item>1</item><item>2</item></root>'' ign st
        = Inr \<lparr>summary = \<lparr>additions = 0, deletions = 0, modifications = 1\<rparr>,
               diff = [\<lparr>path = ''root.item'', change_type = ''modification'',
                        old_value = Some (XDict [(''text'', XStr ''1'')]),
                        new_value = Some (XList [XDict [(''text'', XStr ''1'')],
                                                XDict [(''text'', XStr ''2'')]])\<rparr>],
               formatted_diff =
                 \<lparr>source = [''~ <root><item>1</item></root>''],
                  target = [''~ <root><item>1</item><item>2</item></root>'']\<rparr>\<rparr>\<close>
    by (simp add: compare_xml_def reraise_def strip_digits
          dict_set_def create_formatted_xml_diff_def py_in_def sub)
  show ?thesis using general scenario by (rule conjI)
qed

theorem repeated_tags_keep_document_order_witness:
  \<open>et_fromstring_ex ''<root><item>1</item></root>''
         = Inr (Element ''root'' None [Element ''item'' (Some ''1'') []])
   \<and> et_fromstring_ex ''<root><item>1</item><item>2</item></root>''
         = Inr (Element ''root'' None
                  [Element ''item'' (Some ''1'') [], Element ''item'' (Some ''2'') []])
   \<and> ''item'' \<notin> set [''secret'']
   \<and> compare_xml et_fromstring_ex ''<root><item>1</item></root>''
          ''<root><item>1</item><item>2</item></root>'' [''secret''] (Some True)
        = Inr \<lparr>summary = \<lparr>additions = 0, deletions = 0, modifications = 1\<rparr>,
               diff = [\<lparr>path = ''root.item'', change_type = ''modification'',
                        old_value = Some (XDict [(''text'', XStr ''1'')]),
                        new_value = Some (XList [XDict [(''text'', XStr ''1'')],
                                                XDict [(''text'', XStr ''2'')]])\<rparr>],
               formatted_diff =
                 \<lparr>source = [''~ <root><item>1</item></root>''],
                  target = [''~ <root><item>1</item><item>2</item></root>'']\<rparr>\<rparr>\<close>
proof -
  have a: \<open>et_fromstring_ex ''<root><item>1</item></root>''
         = Inr (Element ''root'' None [Element ''item'' (Some ''1'') []])\<close>
    by (simp add: et_fromstring_ex_def parser_of_def)
  have b: \<open>et_fromstring_ex ''<root><item>1</item><item>2</item></root>''
         = Inr (Element ''root'' None
                  [Element ''item'' (Some ''1'') [], Element ''item'' (Some ''2'') []])\<close>
    by (simp add: et_fromstring_ex_def parser_of_def)
  have c: "''item'' \<notin> set [''secret'']" by simp
  show ?thesis
    using repeated_tags_keep_document_order
        [where fromstring = et_fromstring_ex and ign = "[''secret'']" and st = "Some True",
         THEN conjunct2, THEN mp, OF conjI [OF a conjI [OF b c]]]
    by (intro conjI a b c)
qed

section \<open>Splitting a text into lines\<close>

lemma split_not_empty: "split c s \<noteq> []"
  by (induction s) (auto split: list.splits)

lemma length_split: "length (split c s) = Suc (count_list s c)"
  by (induction s) (auto simp: split_not_empty split: list.splits)

lemma split_no_separator: "w \<in> set (split c s) \<Longrightarrow> c \<notin> set w"
  by (induction s arbitrary: w) (auto split: list.splits if_splits)

section \<open>The line annotators\<close>

lemma xml_source_lines_marks:
  "xml_source_lines ls changes
     = map (\<lambda>line. source_mark path_fragments changes line @ '' '' @ line) ls"
  by (induction ls)
     (simp_all add: source_mark_def touches_def path_fragments_def py_in_def Let_def)

lemma xml_target_lines_marks:
  "xml_target_lines ls changes
     = map (\<lambda>line. target_mark path_fragments changes line @ '' '' @ line) ls"
  by (induction ls)
     (simp_all add: target_mark_def touches_def path_fragments_def py_in_def Let_def)

lemma xml_source_lines_shape:
  "list_all2 (\<lambda>out line. out = ''  '' @ line \<or> out = ''- '' @ line \<or> out = ''~ '' @ line)
     (xml_source_lines ls changes) ls"
  by (induction ls) (simp_all add: Let_def)

lemma xml_target_lines_shape:
  "list_all2 (\<lambda>out line. out = ''  '' @ line \<or> out = ''+ '' @ line \<or> out = ''~ '' @ line)
     (xml_target_lines ls changes) ls"
  by (induction ls) (simp_all add: Let_def)

lemma json_source_lines_shape:
  "list_all2 (\<lambda>out line. out = ''  '' @ line \<or> out = ''- '' @ line \<or> out = ''~ '' @ line)
     (json_source_lines ls report) ls"
  by (induction ls) simp_all

lemma json_target_lines_shape:
  "list_all2 (\<lambda>out line. out = ''  '' @ line \<or> out = ''+ '' @ line \<or> out = ''~ '' @ line)
     (json_target_lines ls report) ls"
  by (induction ls) simp_all

lemma yaml_source_lines_shape:
  "list_all2 (\<lambda>out line. out = ''  '' @ line \<or> out = ''- '' @ line \<or> out = ''~ '' @ line)
     (yaml_source_lines ls report) ls"
  by (induction ls) simp_all

lemma yaml_target_lines_shape:
  "list_all2 (\<lambda>out line. out = ''  '' @ line \<or> out = ''+ '' @ line \<or> out = ''~ '' @ line)
     (yaml_target_lines ls report) ls"
  by (induction ls) simp_all

text \<open>
  C10. Each annotator returns one entry per line of the text it was given (the text
  split at the newlines), and each entry is a two-character marker followed by the line
  as it was: blank, minus or tilde on the source side, blank, plus or tilde on the
  target side.
\<close>

theorem annotators_keep_every_line:
  "list_all2 (\<lambda>out line. out = ''  '' @ line \<or> out = ''- '' @ line \<or> out = ''~ '' @ line)
     (source (create_formatted_xml_diff s t changes)) (split (CHR 0x0A) s)
 \<and> list_all2 (\<lambda>out line. out = ''  '' @ line \<or> out = ''+ '' @ line \<or> out = ''~ '' @ line)
     (target (create_formatted_xml_diff s t changes)) (split (CHR 0x0A) t)
 \<and> list_all2 (\<lambda>out line. out = ''  '' @ line \<or> out = ''- '' @ line \<or> out = ''~ '' @ line)
     (source (create_formatted_json_diff s t report)) (split (CHR 0x0A) s)
 \<and> list_all2 (\<lambda>out line. out = ''  '' @ line \<or> out = ''+ '' @ line \<or> out = ''~ '' @ line)
     (target (create_formatted_json_diff s t report)) (split (CHR 0x0A) t)
 \<and> list_all2 (\<lambda>out line. out = ''  '' @ line \<or> out = ''- '' @ line \<or> out = ''~ '' @ line)
     (source (create_formatted_yaml_diff s t report)) (split (CHR 0x0A) s)
 \<and> list_all2 (\<lambda>out line. out = ''  '' @ line \<or> out = ''+ '' @ line \<or> out = ''~ '' @ line)
     (target (create_formatted_yaml_diff s t report)) (split (CHR 0x0A) t)"
  unfolding create_formatted_xml_diff_def create_formatted_json_diff_def
    create_formatted_yaml_diff_def Let_def formatted.simps
  by (intro conjI xml_source_lines_shape xml_target_lines_shape json_source_lines_shape
        json_target_lines_shape yaml_source_lines_shape yaml_target_lines_shape)

lemma annotated_line_count:
  "length (source (create_formatted_xml_diff s t changes)) = Suc (count_list s (CHR 0x0A))"
  "length (source (create_formatted_json_diff s t report)) = Suc (count_list s (CHR 0x0A))"
  "length (source (create_formatted_yaml_diff s t report)) = Suc (count_list s (CHR 0x0A))"
  using xml_source_lines_shape [of "split (CHR 0x0A) s" changes]
    json_source_lines_shape [of "split (CHR 0x0A) s" report]
    yaml_source_lines_shape [of "split (CHR 0x0A) s" report]
  by (auto dest!: list_all2_lengthD
        simp: length_split create_formatted_xml_diff_def create_formatted_json_diff_def
          create_formatted_yaml_diff_def)

section \<open>The loops over a report\<close>

lemma additions_loop_records:
  "additions_loop c ps = Inr cs \<Longrightarrow>
     map path cs = ps \<and> list_all (\<lambda>x. change_type x = ''addition'') cs"
  by (induction ps arbitrary: cs) (auto split: sum.splits)

lemma deletions_loop_records:
  "deletions_loop c ps = Inr cs \<Longrightarrow>
     map path cs = ps \<and> list_all (\<lambda>x. change_type x = ''deletion'') cs"
  by (induction ps arbitrary: cs) (auto split: sum.splits)

lemma modifications_loop_records:
  "modifications_loop c ps = Inr cs \<Longrightarrow>
     map path cs = ps \<and> list_all (\<lambda>x. change_type x = ''modification'') cs"
  by (induction ps arbitrary: cs) (auto split: sum.splits)

text \<open>What a returned result of \<open>compare_json\<close> and \<open>compare_yaml\<close> is made of.\<close>

lemma compare_json_returns:
  assumes "compare_json loads DeepDiff s t ign st = Inr r"
  obtains a b report added removed changed where
    "loads s = Inr a" "loads t = Inr b" "DeepDiff a b (py_not st) ign = Inr report"
    "additions_loop (dd_get report ''dictionary_item_added'')
       (iter (dd_get report ''dictionary_item_added'')) = Inr added"
    "deletions_loop (dd_get report ''dictionary_item_removed'')
       (iter (dd_get report ''dictionary_item_removed'')) = Inr removed"
    "modifications_loop (dd_get report ''values_changed'')
       (iter (dd_get report ''values_changed'')) = Inr changed"
    "diff r = added @ removed @ changed"
    "formatted_diff r = create_formatted_json_diff s t report"
    "summary r =
       \<lparr>additions = len (dd_get report ''dictionary_item_added'')
                      + len (dd_get report ''iterable_item_added''),
        deletions = len (dd_get report ''dictionary_item_removed'')
                      + len (dd_get report ''iterable_item_removed''),
        modifications = len (dd_get report ''values_changed'')\<rparr>"
  using assms unfolding compare_json_def reraise_def Let_def
  by (auto split: sum.splits)

lemma compare_yaml_returns:
  assumes "compare_yaml loads DeepDiff s t ign st = Inr r"
  obtains a b report added removed changed where
    "loads s = Inr a" "loads t = Inr b" "DeepDiff a b (py_not st) ign = Inr report"
    "additions_loop (dd_get report ''dictionary_item_added'')
       (iter (dd_get report ''dictionary_item_added'')) = Inr added"
    "deletions_loop (dd_get report ''dictionary_item_removed'')
       (iter (dd_get report ''dictionary_item_removed'')) = Inr removed"
    "modifications_loop (dd_get report ''values_changed'')
       (iter (dd_get report ''values_changed'')) = Inr changed"
    "diff r = added @ removed @ changed"
    "formatted_diff r = create_formatted_yaml_diff s t report"
    "summary r =
       \<lparr>additions = len (dd_get report ''dictionary_item_added'')
                      + len (dd_get report ''iterable_item_added''),
        deletions = len (dd_get report ''dictionary_item_removed'')
                      + len (dd_get report ''iterable_item_removed''),
        modifications = len (dd_get report ''values_changed'')\<rparr>"
  using assms unfolding compare_yaml_def reraise_def Let_def
  by (auto split: sum.splits)

lemma compare_xml_returns:
  assumes "compare_xml fromstring s t ign st = Inr r"
  obtains a b where
    "fromstring s = Inr a" "fromstring t = Inr b"
    "diff r = compare_xml_dicts (xml_to_dict a) (xml_to_dict b) ign ''root''"
    "formatted_diff r = create_formatted_xml_diff s t (diff r)"
    "summary r = tally (diff r)"
  using assms unfolding compare_xml_def reraise_def Let_def tally_def
  by (auto split: sum.splits simp del: compare_xml_dicts.simps)

section \<open>Marks of a result built from a report\<close>

lemma touches_append:
  "touches parts k (xs @ ys) line = (touches parts k xs line \<or> touches parts k ys line)"
  by (simp add: touches_def)

lemma touches_other_kind:
  "list_all (\<lambda>x. change_type x = k') cs \<Longrightarrow> k' \<noteq> k \<Longrightarrow> \<not> touches parts k cs line"
  by (induction cs) (auto simp: touches_def)

lemma touches_same_kind:
  "list_all (\<lambda>x. change_type x = k) cs \<Longrightarrow>
     touches whole_path k cs line = list_ex (\<lambda>p. sublist p line) (map path cs)"
  by (induction cs) (auto simp: touches_def whole_path_def)

lemma marks_of_report:
  assumes "map path added = pa" "list_all (\<lambda>x. change_type x = ''addition'') added"
    and "map path removed = pr" "list_all (\<lambda>x. change_type x = ''deletion'') removed"
    and "map path changed = pc" "list_all (\<lambda>x. change_type x = ''modification'') changed"
  shows "touches whole_path ''deletion'' (added @ removed @ changed) line
           = list_ex (\<lambda>p. py_in p line) pr"
    and "touches whole_path ''addition'' (added @ removed @ changed) line
           = list_ex (\<lambda>p. py_in p line) pa"
    and "touches whole_path ''modification'' (added @ removed @ changed) line
           = list_ex (\<lambda>p. py_in p line) pc"
proof -
  have n: "\<not> touches whole_path ''deletion'' added line"
    "\<not> touches whole_path ''deletion'' changed line"
    "\<not> touches whole_path ''addition'' removed line"
    "\<not> touches whole_path ''addition'' changed line"
    "\<not> touches whole_path ''modification'' added line"
    "\<not> touches whole_path ''modification'' removed line"
    using touches_other_kind [OF assms(2), of "''deletion''" whole_path line]
      touches_other_kind [OF assms(6), of "''deletion''" whole_path line]
      touches_other_kind [OF assms(4), of "''addition''" whole_path line]
      touches_other_kind [OF assms(6), of "''addition''" whole_path line]
      touches_other_kind [OF assms(2), of "''modification''" whole_path line]
      touches_other_kind [OF assms(4), of "''modification''" whole_path line]
    by simp_all
  show "touches whole_path ''deletion'' (added @ removed @ changed) line
           = list_ex (\<lambda>p. py_in p line) pr"
    using n assms(3,4) by (simp add: touches_append touches_same_kind py_in_def)
  show "touches whole_path ''addition'' (added @ removed @ changed) line
           = list_ex (\<lambda>p. py_in p line) pa"
    using n assms(1,2) by (simp add: touches_append touches_same_kind py_in_def)
  show "touches whole_path ''modification'' (added @ removed @ changed) line
           = list_ex (\<lambda>p. py_in p line) pc"
    using n assms(5,6) by (simp add: touches_append touches_same_kind py_in_def)
qed

lemma json_lines_marks:
  assumes "map path added = iter (dd_get report ''dictionary_item_added'')"
    "list_all (\<lambda>x. change_type x = ''addition'') added"
    and "map path removed = iter (dd_get report ''dictionary_item_removed'')"
    "list_all (\<lambda>x. change_type x = ''deletion'') removed"
    and "map path changed = iter (dd_get report ''values_changed'')"
    "list_all (\<lambda>x. change_type x = ''modification'') changed"
  shows "json_source_lines ls report
       = map (\<lambda>line. source_mark whole_path (added @ removed @ changed) line @ '' '' @ line) ls"
    and "json_target_lines ls report
       = map (\<lambda>line. target_mark whole_path (added @ removed @ changed) line @ '' '' @ line) ls"
    and "yaml_source_lines ls report
       = map (\<lambda>line. source_mark whole_path (added @ removed @ changed) line @ '' '' @ line) ls"
    and "yaml_target_lines ls report
       = map (\<lambda>line. target_mark whole_path (added @ removed @ changed) line @ '' '' @ line) ls"
  by (induction ls)
     (simp_all add: source_mark_def target_mark_def marks_of_report [OF assms])

section \<open>The libraries on the scenario documents\<close>

lemma json_loads_ex_values:
  \<open>json_loads_ex ''{"a":1,"b":2}'' = Inr (PDict [(''a'', PInt 1), (''b'', PInt 2)])\<close>
  \<open>json_loads_ex ''{"a":1,"b":3,"c":4}''
     = Inr (PDict [(''a'', PInt 1), (''b'', PInt 3), (''c'', PInt 4)])\<close>
  \<open>json_loads_ex ''{"a":[1]}'' = Inr (PDict [(''a'', PList [PInt 1])])\<close>
  \<open>json_loads_ex ''{"a":[1,2]}'' = Inr (PDict [(''a'', PList [PInt 1, PInt 2])])\<close>
  \<open>json_loads_ex ''{"a":{"secret":1}}'' = Inr (PDict [(''a'', PDict [(''secret'', PInt 1)])])\<close>
  \<open>json_loads_ex ''{"a":{"secret":2}}'' = Inr (PDict [(''a'', PDict [(''secret'', PInt 2)])])\<close>
  \<open>json_loads_ex ''{"k":[1,2,3]}'' = Inr (PDict [(''k'', PList [PInt 1, PInt 2, PInt 3])])\<close>
  \<open>json_loads_ex ''{"k":[3,2,1]}'' = Inr (PDict [(''k'', PList [PInt 3, PInt 2, PInt 1])])\<close>
  \<open>json_loads_ex ''{"a":1}'' = Inr (PDict [(''a'', PInt 1)])\<close>
  \<open>json_loads_ex ''{"a":1.0}'' = Inr (PDict [(''a'', PFloat 1)])\<close>
  \<open>json_loads_ex ''{"a.b": 1, "c": "b']"}'' = Inr (PDict [(''a.b'', PInt 1), (''c'', PStr ''b']'')])\<close>
  \<open>json_loads_ex ''{"a.b": 2, "c": "b']"}'' = Inr (PDict [(''a.b'', PInt 2), (''c'', PStr ''b']'')])\<close>
  by (simp_all add: json_loads_ex_def loader_of_def)

lemma yaml_safe_load_ex_values:
  \<open>yaml_safe_load_ex ''a: 1'' = Inr (PDict [(''a'', PInt 1)])\<close>
  \<open>yaml_safe_load_ex ''a: 1.0'' = Inr (PDict [(''a'', PFloat 1)])\<close>
  \<open>yaml_safe_load_ex ''k: [1, 2, 3]'' = Inr (PDict [(''k'', PList [PInt 1, PInt 2, PInt 3])])\<close>
  \<open>yaml_safe_load_ex ''k: [3, 2, 1]'' = Inr (PDict [(''k'', PList [PInt 3, PInt 2, PInt 1])])\<close>
  by (simp_all add: yaml_safe_load_ex_def loader_of_def)

lemma et_fromstring_ex_values:
  \<open>et_fromstring_ex ''<root><item>1</item></root>''
     = Inr (Element ''root'' None [Element ''item'' (Some ''1'') []])\<close>
  \<open>et_fromstring_ex ''<root><item>1</item><item>2</item></root>''
     = Inr (Element ''root'' None
              [Element ''item'' (Some ''1'') [], Element ''item'' (Some ''2'') []])\<close>
  \<open>et_fromstring_ex ''<r><i>1</i><i>2</i><i>3</i></r>''
     = Inr (Element ''r'' None
              [Element ''i'' (Some ''1'') [], Element ''i'' (Some ''2'') [],
               Element ''i'' (Some ''3'') []])\<close>
  \<open>et_fromstring_ex ''<r><i>3</i><i>2</i><i>1</i></r>''
     = Inr (Element ''r'' None
              [Element ''i'' (Some ''3'') [], Element ''i'' (Some ''2'') [],
               Element ''i'' (Some ''1'') []])\<close>
  by (simp_all add: et_fromstring_ex_def parser_of_def)

lemma deep_diff_ex_values:
  \<open>deep_diff_ex (PDict [(''a'', PInt 1), (''b'', PInt 2)])
      (PDict [(''a'', PInt 1), (''b'', PInt 3), (''c'', PInt 4)]) False []
     = Inr [(''dictionary_item_added'', Paths [''root['c']'']),
            (''values_changed'',
               PathDict [(''root['b']'', PDict [(''new_value'', PInt 3), (''old_value'', PInt 2)])])]\<close>
  \<open>deep_diff_ex (PDict [(''a'', PList [PInt 1])]) (PDict [(''a'', PList [PInt 1, PInt 2])]) False []
     = Inr [(''iterable_item_added'', PathDict [(''root['a'][1]'', PInt 2)])]\<close>
  \<open>deep_diff_ex (PDict [(''a'', PDict [(''secret'', PInt 1)])])
      (PDict [(''a'', PDict [(''secret'', PInt 2)])]) False [''secret'']
     = Inr [(''values_changed'',
               PathDict [(''root['a']['secret']'',
                          PDict [(''new_value'', PInt 2), (''old_value'', PInt 1)])])]\<close>
  \<open>deep_diff_ex (PDict [(''k'', PList [PInt 1, PInt 2, PInt 3])])
      (PDict [(''k'', PList [PInt 3, PInt 2, PInt 1])]) False []
     = Inr [(''values_changed'',
               PathDict [(''root['k'][0]'', PDict [(''new_value'', PInt 3), (''old_value'', PInt 1)]),
                         (''root['k'][2]'', PDict [(''new_value'', PInt 1), (''old_value'', PInt 3)])])]\<close>
  \<open>deep_diff_ex (PDict [(''k'', PList [PInt 1, PInt 2, PInt 3])])
      (PDict [(''k'', PList [PInt 3, PInt 2, PInt 1])]) True [] = Inr []\<close>
  \<open>deep_diff_ex (PDict [(''a'', PInt 1)]) (PDict [(''a'', PFloat 1)]) False []
     = Inr [(''type_changes'',
               PathDict [(''root['a']'',
                          PDict [(''old_type'', PStr ''int''), (''new_type'', PStr ''float''),
                                 (''old_value'', PInt 1), (''new_value'', PFloat 1)])])]\<close>
  \<open>deep_diff_ex (PDict [(''a.b'', PInt 1), (''c'', PStr ''b']'')])
      (PDict [(''a.b'', PInt 2), (''c'', PStr ''b']'')]) False []
     = Inr [(''values_changed'',
               PathDict [(''root['a.b']'', PDict [(''new_value'', PInt 2), (''old_value'', PInt 1)])])]\<close>
  by (simp_all add: deep_diff_ex_def differ_of_def)

lemmas eval_compare =
  compare_json_def compare_yaml_def reraise_def py_not_def dd_get_def
  create_formatted_json_diff_def create_formatted_yaml_diff_def py_in_def sublist_Cons_right

text \<open>
  C2. The claim: the summary equals the tally of the returned diff list. The code: for
  the source \<open>{"a":[1]}\<close> and the target \<open>{"a":[1,2]}\<close> the library reports one added list
  item; \<open>compare_json\<close> counts it in \<open>summary.additions\<close> and builds no record for it.
\<close>

theorem summary_counts_list_items_without_records:
  \<open>compare_json json_loads_ex deep_diff_ex ''{"a":[1]}'' ''{"a":[1,2]}'' [] (Some True)
     = Inr \<lparr>summary = \<lparr>additions = 1, deletions = 0, modifications = 0\<rparr>,
            diff = [],
            formatted_diff = \<lparr>source = [''  {"a":[1]}''], target = [''  {"a":[1,2]}'']\<rparr>\<rparr>\<close>
  by (simp add: eval_compare json_loads_ex_values deep_diff_ex_values)

text \<open>
  C3. The claim: no record has a path ending in an ignored key, at any nesting level,
  in all three formats. The code: \<open>compare_json\<close> passes \<open>ignore_keys\<close> to the library as
  \<open>exclude_paths\<close> and filters nothing itself; the key \<open>secret\<close> below \<open>a\<close> has the path
  \<open>root['a']['secret']\<close>, which is not excluded, and its change is reported.
\<close>

theorem nested_ignored_key_is_reported:
  \<open>compare_json json_loads_ex deep_diff_ex ''{"a":{"secret":1}}'' ''{"a":{"secret":2}}''
       [''secret''] (Some True)
     = Inr \<lparr>summary = \<lparr>additions = 0, deletions = 0, modifications = 1\<rparr>,
            diff = [\<lparr>path = ''root['a']['secret']'', change_type = ''modification'',
                     old_value = Some (PInt 1), new_value = Some (PInt 2)\<rparr>],
            formatted_diff = \<lparr>source = [''  {"a":{"secret":1}}''],
                              target = [''  {"a":{"secret":2}}'']\<rparr>\<rparr>\<close>
  by (simp add: eval_compare json_loads_ex_values deep_diff_ex_values)

text \<open>
  C6. The claim: two values of different type at one key, such as \<open>1\<close> and \<open>1.0\<close>, give
  a modification record. The code: the library reports the pair under \<open>type_changes\<close>,
  a category \<open>compare_json\<close> and \<open>compare_yaml\<close> never read; the result says that nothing
  changed.
\<close>

theorem type_change_is_dropped:
  \<open>compare_json json_loads_ex deep_diff_ex ''{"a":1}'' ''{"a":1.0}'' [] (Some True)
     = Inr \<lparr>summary = \<lparr>additions = 0, deletions = 0, modifications = 0\<rparr>,
            diff = [],
            formatted_diff = \<lparr>source = [''  {"a":1}''], target = [''  {"a":1.0}'']\<rparr>\<rparr>
   \<and> compare_yaml yaml_safe_load_ex deep_diff_ex ''a: 1'' ''a: 1.0'' [] (Some True)
     = Inr \<lparr>summary = \<lparr>additions = 0, deletions = 0, modifications = 0\<rparr>,
            diff = [],
            formatted_diff = \<lparr>source = [''  a: 1''], target = [''  a: 1.0'']\<rparr>\<rparr>\<close>
  by (simp add: eval_compare json_loads_ex_values yaml_safe_load_ex_values deep_diff_ex_values)

text \<open>
  A report whose added dict items come as a collection of paths makes the first loop
  raise at its first path: \<open>diff['dictionary_item_added'][path]\<close> subscripts the
  collection with a string.
\<close>

lemma compare_json_raises_on_added_paths:
  assumes "loads s = Inr a" "loads t = Inr b" "DeepDiff a b (py_not st) ign = Inr report"
    and "dd_get report ''dictionary_item_added'' = Paths (p # ps)"
  shows "compare_json loads DeepDiff s t ign st
     = Inl (Exception
         ''JSON comparison failed: list indices must be integers or slices, not str'')"
  using assms by (simp add: compare_json_def reraise_def)

text \<open>
  C4. The claim: for the source \<open>{"a":1,"b":2}\<close> and the target \<open>{"a":1,"b":3,"c":4}\<close>
  with no ignored key and \<open>strict\<close> true, \<open>compare_json\<close> returns a modification for \<open>b\<close>,
  an addition for \<open>c\<close> and the summary one addition, one modification. The code: the
  library reports the added key as the path \<open>root['c']\<close> in a collection of paths; the
  loop over the additions subscripts that collection with the path, which raises, and
  \<open>compare_json\<close> leaves with an exception instead of a result.
\<close>

theorem scenario1_raises:
  \<open>compare_json json_loads_ex deep_diff_ex ''{"a":1,"b":2}'' ''{"a":1,"b":3,"c":4}'' [] (Some True)
     = Inl (Exception
         ''JSON comparison failed: list indices must be integers or slices, not str'')\<close>
  by (simp add: eval_compare json_loads_ex_values deep_diff_ex_values)

section \<open>Reordered sequences\<close>

lemma compare_xml_ignores_strict:
  "compare_xml fromstring s t ign st = compare_xml fromstring s t ign st'"
  by (simp add: compare_xml_def)

lemma only_modifications:
  assumes "compare_json loads DeepDiff s t ign st = Inr r \<or> compare_yaml loads DeepDiff s t ign st = Inr r"
    and "loads s = Inr a" and "loads t = Inr b"
    and "DeepDiff a b (py_not st) ign = Inr report"
    and "iter (dd_get report ''dictionary_item_added'') = []"
    and "iter (dd_get report ''dictionary_item_removed'') = []"
  shows "map path (diff r) = iter (dd_get report ''values_changed'')
       \<and> list_all (\<lambda>c. change_type c = ''modification'') (diff r)"
proof -
  from assms(1) obtain a' b' report' added removed changed where
    h: "loads s = Inr a'" "loads t = Inr b'" "DeepDiff a' b' (py_not st) ign = Inr report'"
      "additions_loop (dd_get report' ''dictionary_item_added'')
         (iter (dd_get report' ''dictionary_item_added'')) = Inr added"
      "deletions_loop (dd_get report' ''dictionary_item_removed'')
         (iter (dd_get report' ''dictionary_item_removed'')) = Inr removed"
      "modifications_loop (dd_get report' ''values_changed'')
         (iter (dd_get report' ''values_changed'')) = Inr changed"
      "diff r = added @ removed @ changed"
    by (elim disjE compare_json_returns compare_yaml_returns)
  have eq: "report' = report" using h(1-3) assms(2-4) by simp
  have "added = []" "removed = []" using h(4,5) assms(5,6) unfolding eq by simp_all
  then show ?thesis using modifications_loop_records [OF h(6)] h(7) unfolding eq by simp
qed

text \<open>
  C5, as amended. A JSON or YAML source holds the sequence \<open>[1,2,3]\<close> under the key \<open>k\<close>
  and the target holds \<open>[3,2,1]\<close> there. With \<open>strict\<close> true the library is asked for an
  order-sensitive report and names the two elements that changed, \<open>root['k'][0]\<close> and
  \<open>root['k'][2]\<close>; the comparator yields one modification record for each of them, two
  records at the element paths. With \<open>strict\<close> false the library is asked for an
  order-insensitive report, which is empty, and the comparator yields no change record
  at all.
\<close>

theorem reordered_sequence_records:
  \<open>(loads s = Inr a \<and> loads t = Inr b
      \<and> DeepDiff a b False ign
          = Inr [(''values_changed'',
               PathDict [(''root['k'][0]'', PDict [(''new_value'', PInt 3), (''old_value'', PInt 1)]),
                         (''root['k'][2]'', PDict [(''new_value'', PInt 1), (''old_value'', PInt 3)])])] \<longrightarrow>
      compare_json loads DeepDiff s t ign (Some True)
        = Inr \<lparr>summary = \<lparr>additions = 0, deletions = 0, modifications = 2\<rparr>,
               diff = [\<lparr>path = ''root['k'][0]'', change_type = ''modification'',
                     old_value = Some (PInt 1), new_value = Some (PInt 3)\<rparr>,
                       \<lparr>path = ''root['k'][2]'', change_type = ''modification'',
                     old_value = Some (PInt 3), new_value = Some (PInt 1)\<rparr>],
               formatted_diff = create_formatted_json_diff s t
                 [(''values_changed'',
               PathDict [(''root['k'][0]'', PDict [(''new_value'', PInt 3), (''old_value'', PInt 1)]),
                         (''root['k'][2]'', PDict [(''new_value'', PInt 1), (''old_value'', PInt 3)])])]\<rparr>)
 \<and> (loads s = Inr a \<and> loads t = Inr b
      \<and> DeepDiff a b True ign = Inr [] \<longrightarrow>
      compare_json loads DeepDiff s t ign (Some False)
        = Inr \<lparr>summary = \<lparr>additions = 0, deletions = 0, modifications = 0\<rparr>,
               diff = [],
               formatted_diff =
                 \<lparr>source = map (\<lambda>l. ''  '' @ l) (split (CHR 0x0A) s),
                  target = map (\<lambda>l. ''  '' @ l) (split (CHR 0x0A) t)\<rparr>\<rparr>)
 \<and> (safe_load s2 = Inr a2 \<and> safe_load t2 = Inr b2
      \<and> DeepDiff a2 b2 False ign
          = Inr [(''values_changed'',
               PathDict [(''root['k'][0]'', PDict [(''new_value'', PInt 3), (''old_value'', PInt 1)]),
                         (''root['k'][2]'', PDict [(''new_value'', PInt 1), (''old_value'', PInt 3)])])] \<longrightarrow>
      compare_yaml safe_load DeepDiff s2 t2 ign (Some True)
        = Inr \<lparr>summary = \<lparr>additions = 0, deletions = 0, modifications = 2\<rparr>,
               diff = [\<lparr>path = ''root['k'][0]'', change_type = ''modification'',
                     old_value = Some (PInt 1), new_value = Some (PInt 3)\<rparr>,
                       \<lparr>path = ''root['k'][2]'', change_type = ''modification'',
                     old_value = Some (PInt 3), new_value = Some (PInt 1)\<rparr>],
               formatted_diff = create_formatted_yaml_diff s2 t2
                 [(''values_changed'',
               PathDict [(''root['k'][0]'', PDict [(''new_value'', PInt 3), (''old_value'', PInt 1)]),
                         (''root['k'][2]'', PDict [(''new_value'', PInt 1), (''old_value'', PInt 3)])])]\<rparr>)
 \<and> (safe_load s2 = Inr a2 \<and> safe_load t2 = Inr b2
      \<and> DeepDiff a2 b2 True ign = Inr [] \<longrightarrow>
      compare_yaml safe_load DeepDiff s2 t2 ign (Some False)
        = Inr \<lparr>summary = \<lparr>additions = 0, deletions = 0, modifications = 0\<rparr>,
               diff = [],
               formatted_diff =
                 \<lparr>source = map (\<lambda>l. ''  '' @ l) (split (CHR 0x0A) s2),
                  target = map (\<lambda>l. ''  '' @ l) (split (CHR 0x0A) t2)\<rparr>\<rparr>)\<close>
  by (simp add: compare_json_def compare_yaml_def reraise_def py_not_def dd_get_def
        create_formatted_json_diff_def create_formatted_yaml_diff_def
        json_source_lines_no_paths json_target_lines_no_paths
        yaml_source_lines_no_paths yaml_target_lines_no_paths)

lemma reordered_json:
  \<open>compare_json json_loads_ex deep_diff_ex ''{"k":[1,2,3]}'' ''{"k":[3,2,1]}'' [] (Some True)
     = Inr \<lparr>summary = \<lparr>additions = 0, deletions = 0, modifications = 2\<rparr>,
            diff = [\<lparr>path = ''root['k'][0]'', change_type = ''modification'',
                     old_value = Some (PInt 1), new_value = Some (PInt 3)\<rparr>,
                    \<lparr>path = ''root['k'][2]'', change_type = ''modification'',
                     old_value = Some (PInt 3), new_value = Some (PInt 1)\<rparr>],
            formatted_diff = \<lparr>source = [''  '' @ ''{"k":[1,2,3]}''], target = [''  '' @ ''{"k":[3,2,1]}'']\<rparr>\<rparr>\<close>
  by (simp add: eval_compare json_loads_ex_values deep_diff_ex_values)

lemma reordered_yaml:
  \<open>compare_yaml yaml_safe_load_ex deep_diff_ex ''k: [1, 2, 3]'' ''k: [3, 2, 1]'' [] (Some True)
     = Inr \<lparr>summary = \<lparr>additions = 0, deletions = 0, modifications = 2\<rparr>,
            diff = [\<lparr>path = ''root['k'][0]'', change_type = ''modification'',
                     old_value = Some (PInt 1), new_value = Some (PInt 3)\<rparr>,
                    \<lparr>path = ''root['k'][2]'', change_type = ''modification'',
                     old_value = Some (PInt 3), new_value = Some (PInt 1)\<rparr>],
            formatted_diff = \<lparr>source = [''  '' @ ''k: [1, 2, 3]''], target = [''  '' @ ''k: [3, 2, 1]'']\<rparr>\<rparr>\<close>
  by (simp add: eval_compare yaml_safe_load_ex_values deep_diff_ex_values)

lemma reordered_xml:
  \<open>compare_xml et_fromstring_ex ''<r><i>1</i><i>2</i><i>3</i></r>'' ''<r><i>3</i><i>2</i><i>1</i></r>'' [] (Some False)
     = Inr \<lparr>summary = \<lparr>additions = 0, deletions = 0, modifications = 1\<rparr>,
            diff = [\<lparr>path = ''root.i'', change_type = ''modification'',
                     old_value = Some (XList [XDict [(''text'', XStr ''1'')], XDict [(''text'', XStr ''2'')], XDict [(''text'', XStr ''3'')]]),
                     new_value = Some (XList [XDict [(''text'', XStr ''3'')], XDict [(''text'', XStr ''2'')], XDict [(''text'', XStr ''1'')]])\<rparr>],
            formatted_diff = \<lparr>source = [''~ '' @ ''<r><i>1</i><i>2</i><i>3</i></r>''], target = [''~ '' @ ''<r><i>3</i><i>2</i><i>1</i></r>'']\<rparr>\<rparr>\<close>
  by (simp add: compare_xml_def reraise_def et_fromstring_ex_values strip_digits
        dict_set_def create_formatted_xml_diff_def py_in_def sublist_Cons_right)

theorem reordered_sequence_records_witness:
  \<open>json_loads_ex ''{"k":[1,2,3]}'' = Inr (PDict [(''k'', PList [PInt 1, PInt 2, PInt 3])])
   \<and> json_loads_ex ''{"k":[3,2,1]}'' = Inr (PDict [(''k'', PList [PInt 3, PInt 2, PInt 1])])
   \<and> yaml_safe_load_ex ''k: [1, 2, 3]'' = Inr (PDict [(''k'', PList [PInt 1, PInt 2, PInt 3])])
   \<and> yaml_safe_load_ex ''k: [3, 2, 1]'' = Inr (PDict [(''k'', PList [PInt 3, PInt 2, PInt 1])])
   \<and> deep_diff_ex (PDict [(''k'', PList [PInt 1, PInt 2, PInt 3])]) (PDict [(''k'', PList [PInt 3, PInt 2, PInt 1])]) False []
     = Inr [(''values_changed'',
               PathDict [(''root['k'][0]'', PDict [(''new_value'', PInt 3), (''old_value'', PInt 1)]),
                         (''root['k'][2]'', PDict [(''new_value'', PInt 1), (''old_value'', PInt 3)])])]
   \<and> deep_diff_ex (PDict [(''k'', PList [PInt 1, PInt 2, PInt 3])]) (PDict [(''k'', PList [PInt 3, PInt 2, PInt 1])]) True [] = Inr []
   \<and> compare_json json_loads_ex deep_diff_ex ''{"k":[1,2,3]}'' ''{"k":[3,2,1]}'' [] (Some True)
     = Inr \<lparr>summary = \<lparr>additions = 0, deletions = 0, modifications = 2\<rparr>,
            diff = [\<lparr>path = ''root['k'][0]'', change_type = ''modification'',
                     old_value = Some (PInt 1), new_value = Some (PInt 3)\<rparr>,
                    \<lparr>path = ''root['k'][2]'', change_type = ''modification'',
                     old_value = Some (PInt 3), new_value = Some (PInt 1)\<rparr>],
            formatted_diff = \<lparr>source = [''  '' @ ''{"k":[1,2,3]}''], target = [''  '' @ ''{"k":[3,2,1]}'']\<rparr>\<rparr>
   \<and> compare_json json_loads_ex deep_diff_ex ''{"k":[1,2,3]}'' ''{"k":[3,2,1]}'' [] (Some False)
     = Inr \<lparr>summary = \<lparr>additions = 0, deletions = 0, modifications = 0\<rparr>,
            diff = [],
            formatted_diff = \<lparr>source = [''  '' @ ''{"k":[1,2,3]}''], target = [''  '' @ ''{"k":[3,2,1]}'']\<rparr>\<rparr>
   \<and> compare_yaml yaml_safe_load_ex deep_diff_ex ''k: [1, 2, 3]'' ''k: [3, 2, 1]'' [] (Some True)
     = Inr \<lparr>summary = \<lparr>additions = 0, deletions = 0, modifications = 2\<rparr>,
            diff = [\<lparr>path = ''root['k'][0]'', change_type = ''modification'',
                     old_value = Some (PInt 1), new_value = Some (PInt 3)\<rparr>,
                    \<lparr>path = ''root['k'][2]'', change_type = ''modification'',
                     old_value = Some (PInt 3), new_value = Some (PInt 1)\<rparr>],
            formatted_diff = \<lparr>source = [''  '' @ ''k: [1, 2, 3]''], target = [''  '' @ ''k: [3, 2, 1]'']\<rparr>\<rparr>
   \<and> compare_yaml yaml_safe_load_ex deep_diff_ex ''k: [1, 2, 3]'' ''k: [3, 2, 1]'' [] (Some False)
     = Inr \<lparr>summary = \<lparr>additions = 0, deletions = 0, modifications = 0\<rparr>,
            diff = [],
            formatted_diff = \<lparr>source = [''  '' @ ''k: [1, 2, 3]''], target = [''  '' @ ''k: [3, 2, 1]'']\<rparr>\<rparr>\<close>
proof -
  note j1 = json_loads_ex_values(7) and j2 = json_loads_ex_values(8)
  note y1 = yaml_safe_load_ex_values(3) and y2 = yaml_safe_load_ex_values(4)
  note ds = deep_diff_ex_values(4) and dl = deep_diff_ex_values(5)
  note t = reordered_sequence_records
      [where loads = json_loads_ex and safe_load = yaml_safe_load_ex and DeepDiff = deep_diff_ex
         and ign = "[]"
         and s = \<open>''{"k":[1,2,3]}''\<close> and t = \<open>''{"k":[3,2,1]}''\<close> and ?s2.0 = \<open>''k: [1, 2, 3]''\<close> and ?t2.0 = \<open>''k: [3, 2, 1]''\<close>
         and a = "(PDict [(''k'', PList [PInt 1, PInt 2, PInt 3])])" and b = "(PDict [(''k'', PList [PInt 3, PInt 2, PInt 1])])" and ?a2.0 = "(PDict [(''k'', PList [PInt 1, PInt 2, PInt 3])])" and ?b2.0 = "(PDict [(''k'', PList [PInt 3, PInt 2, PInt 1])])"]
  have r1: \<open>compare_json json_loads_ex deep_diff_ex ''{"k":[1,2,3]}'' ''{"k":[3,2,1]}'' [] (Some True)
     = Inr \<lparr>summary = \<lparr>additions = 0, deletions = 0, modifications = 2\<rparr>,
            diff = [\<lparr>path = ''root['k'][0]'', change_type = ''modification'',
                     old_value = Some (PInt 1), new_value = Some (PInt 3)\<rparr>,
                    \<lparr>path = ''root['k'][2]'', change_type = ''modification'',
                     old_value = Some (PInt 3), new_value = Some (PInt 1)\<rparr>],
            formatted_diff = \<lparr>source = [''  '' @ ''{"k":[1,2,3]}''], target = [''  '' @ ''{"k":[3,2,1]}'']\<rparr>\<rparr>\<close>
    using t [THEN conjunct1, THEN mp, OF conjI [OF j1 conjI [OF j2 ds]]]
    by (simp add: create_formatted_json_diff_def dd_get_def py_in_def sublist_Cons_right)
  have r2: \<open>compare_json json_loads_ex deep_diff_ex ''{"k":[1,2,3]}'' ''{"k":[3,2,1]}'' [] (Some False)
     = Inr \<lparr>summary = \<lparr>additions = 0, deletions = 0, modifications = 0\<rparr>,
            diff = [],
            formatted_diff = \<lparr>source = [''  '' @ ''{"k":[1,2,3]}''], target = [''  '' @ ''{"k":[3,2,1]}'']\<rparr>\<rparr>\<close>
    using t [THEN conjunct2, THEN conjunct1, THEN mp, OF conjI [OF j1 conjI [OF j2 dl]]]
    by simp
  have r3: \<open>compare_yaml yaml_safe_load_ex deep_diff_ex ''k: [1, 2, 3]'' ''k: [3, 2, 1]'' [] (Some True)
     = Inr \<lparr>summary = \<lparr>additions = 0, deletions = 0, modifications = 2\<rparr>,
            diff = [\<lparr>path = ''root['k'][0]'', change_type = ''modification'',
                     old_value = Some (PInt 1), new_value = Some (PInt 3)\<rparr>,
                    \<lparr>path = ''root['k'][2]'', change_type = ''modification'',
                     old_value = Some (PInt 3), new_value = Some (PInt 1)\<rparr>],
            formatted_diff = \<lparr>source = [''  '' @ ''k: [1, 2, 3]''], target = [''  '' @ ''k: [3, 2, 1]'']\<rparr>\<rparr>\<close>
    using t [THEN conjunct2, THEN conjunct2, THEN conjunct1, THEN mp,
             OF conjI [OF y1 conjI [OF y2 ds]]]
    by (simp add: create_formatted_yaml_diff_def dd_get_def py_in_def sublist_Cons_right)
  have r4: \<open>compare_yaml yaml_safe_load_ex deep_diff_ex ''k: [1, 2, 3]'' ''k: [3, 2, 1]'' [] (Some False)
     = Inr \<lparr>summary = \<lparr>additions = 0, deletions = 0, modifications = 0\<rparr>,
            diff = [],
            formatted_diff = \<lparr>source = [''  '' @ ''k: [1, 2, 3]''], target = [''  '' @ ''k: [3, 2, 1]'']\<rparr>\<rparr>\<close>
    using t [THEN conjunct2, THEN conjunct2, THEN conjunct2, THEN mp,
             OF conjI [OF y1 conjI [OF y2 dl]]]
    by simp
  show ?thesis by (intro conjI j1 j2 y1 y2 ds dl r1 r2 r3 r4)
qed

text \<open>
  The claim of C5 as it was stated fails for \<open>strict\<close> true: the JSON comparison of
  \<open>[1,2,3]\<close> with \<open>[3,2,1]\<close> under the key \<open>k\<close> yields two records, at the element paths
  \<open>root['k'][0]\<close> and \<open>root['k'][2]\<close>, and none at the path of the sequence.
\<close>

theorem reordered_sequence_counterexample:
  \<open>compare_json json_loads_ex deep_diff_ex ''{"k":[1,2,3]}'' ''{"k":[3,2,1]}'' [] (Some True)
     = Inr \<lparr>summary = \<lparr>additions = 0, deletions = 0, modifications = 2\<rparr>,
            diff = [\<lparr>path = ''root['k'][0]'', change_type = ''modification'',
                     old_value = Some (PInt 1), new_value = Some (PInt 3)\<rparr>,
                    \<lparr>path = ''root['k'][2]'', change_type = ''modification'',
                     old_value = Some (PInt 3), new_value = Some (PInt 1)\<rparr>],
            formatted_diff = \<lparr>source = [''  '' @ ''{"k":[1,2,3]}''], target = [''  '' @ ''{"k":[3,2,1]}'']\<rparr>\<rparr>\<close>
  by (rule reordered_json)

section \<open>Line marks and change records\<close>

lemma xml_marks:
  assumes "compare_xml fromstring s t ign st = Inr r"
  shows "source (formatted_diff r) = annotate (source_mark path_fragments) (diff r) s
       \<and> target (formatted_diff r) = annotate (target_mark path_fragments) (diff r) t"
proof -
  from assms have "formatted_diff r = create_formatted_xml_diff s t (diff r)"
    by (rule compare_xml_returns)
  then show ?thesis
    by (simp add: create_formatted_xml_diff_def annotate_def xml_source_lines_marks
          xml_target_lines_marks)
qed

lemma json_marks:
  assumes "compare_json loads DeepDiff s t ign st = Inr r"
  shows "source (formatted_diff r) = annotate (source_mark whole_path) (diff r) s
       \<and> target (formatted_diff r) = annotate (target_mark whole_path) (diff r) t"
proof -
  from assms obtain report added removed changed where
    h: "additions_loop (dd_get report ''dictionary_item_added'')
         (iter (dd_get report ''dictionary_item_added'')) = Inr added"
      "deletions_loop (dd_get report ''dictionary_item_removed'')
         (iter (dd_get report ''dictionary_item_removed'')) = Inr removed"
      "modifications_loop (dd_get report ''values_changed'')
         (iter (dd_get report ''values_changed'')) = Inr changed"
      "diff r = added @ removed @ changed"
      "formatted_diff r = create_formatted_json_diff s t report"
    by (rule compare_json_returns)
  note m = json_lines_marks
    [OF additions_loop_records [OF h(1), THEN conjunct1]
        additions_loop_records [OF h(1), THEN conjunct2]
        deletions_loop_records [OF h(2), THEN conjunct1]
        deletions_loop_records [OF h(2), THEN conjunct2]
        modifications_loop_records [OF h(3), THEN conjunct1]
        modifications_loop_records [OF h(3), THEN conjunct2]]
  show ?thesis
    by (simp add: h(4,5) create_formatted_json_diff_def annotate_def m(1,2))
qed

lemma yaml_marks:
  assumes "compare_yaml loads DeepDiff s t ign st = Inr r"
  shows "source (formatted_diff r) = annotate (source_mark whole_path) (diff r) s
       \<and> target (formatted_diff r) = annotate (target_mark whole_path) (diff r) t"
proof -
  from assms obtain report added removed changed where
    h: "additions_loop (dd_get report ''dictionary_item_added'')
         (iter (dd_get report ''dictionary_item_added'')) = Inr added"
      "deletions_loop (dd_get report ''dictionary_item_removed'')
         (iter (dd_get report ''dictionary_item_removed'')) = Inr removed"
      "modifications_loop (dd_get report ''values_changed'')
         (iter (dd_get report ''values_changed'')) = Inr changed"
      "diff r = added @ removed @ changed"
      "formatted_diff r = create_formatted_yaml_diff s t report"
    by (rule compare_yaml_returns)
  note m = json_lines_marks
    [OF additions_loop_records [OF h(1), THEN conjunct1]
        additions_loop_records [OF h(1), THEN conjunct2]
        deletions_loop_records [OF h(2), THEN conjunct1]
        deletions_loop_records [OF h(2), THEN conjunct2]
        modifications_loop_records [OF h(3), THEN conjunct1]
        modifications_loop_records [OF h(3), THEN conjunct2]]
  show ?thesis
    by (simp add: h(4,5) create_formatted_yaml_diff_def annotate_def m(3,4))
qed

text \<open>
  C9, as amended. In every returned result the annotated source holds, for each line
  of the source text, the mark \<open>-\<close> when a deletion record touches the line, else \<open>~\<close> when
  a modification record touches it, else a blank, followed by a blank and the line; the
  annotated target likewise with \<open>+\<close> for addition records. A record touches a line
  in XML when some part of its path, split at the dots, occurs in the line; in JSON and
  YAML when its whole path occurs in the line.
\<close>

theorem line_marks_follow_change_records:
  "(compare_xml fromstring sx tx ign st = Inr rx \<longrightarrow>
      source (formatted_diff rx) = annotate (source_mark path_fragments) (diff rx) sx
      \<and> target (formatted_diff rx) = annotate (target_mark path_fragments) (diff rx) tx)
 \<and> (compare_json loads DeepDiff sj tj ign st = Inr rj \<longrightarrow>
      source (formatted_diff rj) = annotate (source_mark whole_path) (diff rj) sj
      \<and> target (formatted_diff rj) = annotate (target_mark whole_path) (diff rj) tj)
 \<and> (compare_yaml safe_load DeepDiff sy ty ign st = Inr ry \<longrightarrow>
      source (formatted_diff ry) = annotate (source_mark whole_path) (diff ry) sy
      \<and> target (formatted_diff ry) = annotate (target_mark whole_path) (diff ry) ty)"
proof (intro conjI impI)
  assume h: "compare_xml fromstring sx tx ign st = Inr rx"
  show "source (formatted_diff rx) = annotate (source_mark path_fragments) (diff rx) sx"
    and "target (formatted_diff rx) = annotate (target_mark path_fragments) (diff rx) tx"
    using xml_marks [OF h] by simp_all
next
  assume h: "compare_json loads DeepDiff sj tj ign st = Inr rj"
  show "source (formatted_diff rj) = annotate (source_mark whole_path) (diff rj) sj"
    and "target (formatted_diff rj) = annotate (target_mark whole_path) (diff rj) tj"
    using json_marks [OF h] by simp_all
next
  assume h: "compare_yaml safe_load DeepDiff sy ty ign st = Inr ry"
  show "source (formatted_diff ry) = annotate (source_mark whole_path) (diff ry) sy"
    and "target (formatted_diff ry) = annotate (target_mark whole_path) (diff ry) ty"
    using yaml_marks [OF h] by simp_all
qed

lemma marked_json:
  \<open>compare_json json_loads_ex deep_diff_ex ''{"a.b": 1, "c": "b']"}'' ''{"a.b": 2, "c": "b']"}'' [] (Some True)
     = Inr \<lparr>summary = \<lparr>additions = 0, deletions = 0, modifications = 1\<rparr>,
            diff = [\<lparr>path = ''root['a.b']'', change_type = ''modification'',
                     old_value = Some (PInt 1), new_value = Some (PInt 2)\<rparr>],
            formatted_diff = \<lparr>source = [''  '' @ ''{"a.b": 1, "c": "b']"}''], target = [''  '' @ ''{"a.b": 2, "c": "b']"}'']\<rparr>\<rparr>\<close>
  by (simp add: eval_compare json_loads_ex_values deep_diff_ex_values)

lemma marked_xml:
  \<open>compare_xml et_fromstring_ex ''<root><item>1</item></root>'' ''<root><item>1</item><item>2</item></root>'' [] (Some True)
     = Inr \<lparr>summary = \<lparr>additions = 0, deletions = 0, modifications = 1\<rparr>,
               diff = [\<lparr>path = ''root.item'', change_type = ''modification'',
                        old_value = Some (XDict [(''text'', XStr ''1'')]),
                        new_value = Some (XList [XDict [(''text'', XStr ''1'')],
                                                XDict [(''text'', XStr ''2'')]])\<rparr>],
               formatted_diff =
                 \<lparr>source = [''~ <root><item>1</item></root>''],
                  target = [''~ <root><item>1</item><item>2</item></root>'']\<rparr>\<rparr>\<close>
  by (simp add: compare_xml_def reraise_def et_fromstring_ex_values strip_digits
        dict_set_def create_formatted_xml_diff_def py_in_def sublist_Cons_right)

lemma marked_yaml:
  \<open>compare_yaml yaml_safe_load_ex deep_diff_ex ''a: 1'' ''a: 1'' [] (Some True)
     = Inr \<lparr>summary = \<lparr>additions = 0, deletions = 0, modifications = 0\<rparr>, diff = [],
            formatted_diff = \<lparr>source = [''  a: 1''], target = [''  a: 1'']\<rparr>\<rparr>\<close>
  by (simp add: eval_compare yaml_safe_load_ex_values deep_diff_ex_same)

theorem line_marks_follow_change_records_witness:
  \<open>compare_xml et_fromstring_ex ''<root><item>1</item></root>'' ''<root><item>1</item><item>2</item></root>'' [] (Some True)
     = Inr \<lparr>summary = \<lparr>additions = 0, deletions = 0, modifications = 1\<rparr>,
               diff = [\<lparr>path = ''root.item'', change_type = ''modification'',
                        old_value = Some (XDict [(''text'', XStr ''1'')]),
                        new_value = Some (XList [XDict [(''text'', XStr ''1'')],
                                                XDict [(''text'', XStr ''2'')]])\<rparr>],
               formatted_diff =
                 \<lparr>source = [''~ <root><item>1</item></root>''],
                  target = [''~ <root><item>1</item><item>2</item></root>'']\<rparr>\<rparr>
   \<and> (annotate (source_mark path_fragments)
        [\<lparr>path = ''root.item'', change_type = ''modification'',
                        old_value = Some (XDict [(''text'', XStr ''1'')]),
                        new_value = Some (XList [XDict [(''text'', XStr ''1'')],
                                                XDict [(''text'', XStr ''2'')]])\<rparr>] ''<root><item>1</item></root>''
     = [''~ <root><item>1</item></root>'']
   \<and> annotate (target_mark path_fragments)
        [\<lparr>path = ''root.item'', change_type = ''modification'',
                        old_value = Some (XDict [(''text'', XStr ''1'')]),
                        new_value = Some (XList [XDict [(''text'', XStr ''1'')],
                                                XDict [(''text'', XStr ''2'')]])\<rparr>] ''<root><item>1</item><item>2</item></root>''
     = [''~ <root><item>1</item><item>2</item></root>''])
   \<and> compare_json json_loads_ex deep_diff_ex ''{"a.b": 1, "c": "b']"}'' ''{"a.b": 2, "c": "b']"}'' [] (Some True)
     = Inr \<lparr>summary = \<lparr>additions = 0, deletions = 0, modifications = 1\<rparr>,
            diff = [\<lparr>path = ''root['a.b']'', change_type = ''modification'',
                     old_value = Some (PInt 1), new_value = Some (PInt 2)\<rparr>],
            formatted_diff = \<lparr>source = [''  '' @ ''{"a.b": 1, "c": "b']"}''], target = [''  '' @ ''{"a.b": 2, "c": "b']"}'']\<rparr>\<rparr>
   \<and> (annotate (source_mark whole_path)
        [\<lparr>path = ''root['a.b']'', change_type = ''modification'',
                     old_value = Some (PInt 1), new_value = Some (PInt 2)\<rparr>] ''{"a.b": 1, "c": "b']"}''
     = [''  '' @ ''{"a.b": 1, "c": "b']"}'']
   \<and> annotate (target_mark whole_path)
        [\<lparr>path = ''root['a.b']'', change_type = ''modification'',
                     old_value = Some (PInt 1), new_value = Some (PInt 2)\<rparr>] ''{"a.b": 2, "c": "b']"}''
     = [''  '' @ ''{"a.b": 2, "c": "b']"}''])
   \<and> compare_yaml yaml_safe_load_ex deep_diff_ex ''a: 1'' ''a: 1'' [] (Some True)
     = Inr \<lparr>summary = \<lparr>additions = 0, deletions = 0, modifications = 0\<rparr>, diff = [],
            formatted_diff = \<lparr>source = [''  a: 1''], target = [''  a: 1'']\<rparr>\<rparr>
   \<and> (annotate (source_mark whole_path) ([] :: pyval change list) ''a: 1'' = [''  a: 1'']
   \<and> annotate (target_mark whole_path) ([] :: pyval change list) ''a: 1'' = [''  a: 1''])\<close>
proof -
  note t = line_marks_follow_change_records
      [where fromstring = et_fromstring_ex and loads = json_loads_ex
         and safe_load = yaml_safe_load_ex and DeepDiff = deep_diff_ex
         and ign = "[]" and st = "Some True"
         and sx = \<open>''<root><item>1</item></root>''\<close> and tx = \<open>''<root><item>1</item><item>2</item></root>''\<close>
         and sj = \<open>''{"a.b": 1, "c": "b']"}''\<close> and tj = \<open>''{"a.b": 2, "c": "b']"}''\<close>
         and sy = \<open>''a: 1''\<close> and ty = \<open>''a: 1''\<close>]
  have x: \<open>annotate (source_mark path_fragments)
        [\<lparr>path = ''root.item'', change_type = ''modification'',
                        old_value = Some (XDict [(''text'', XStr ''1'')]),
                        new_value = Some (XList [XDict [(''text'', XStr ''1'')],
                                                XDict [(''text'', XStr ''2'')]])\<rparr>] ''<root><item>1</item></root>''
     = [''~ <root><item>1</item></root>'']
   \<and> annotate (target_mark path_fragments)
        [\<lparr>path = ''root.item'', change_type = ''modification'',
                        old_value = Some (XDict [(''text'', XStr ''1'')]),
                        new_value = Some (XList [XDict [(''text'', XStr ''1'')],
                                                XDict [(''text'', XStr ''2'')]])\<rparr>] ''<root><item>1</item><item>2</item></root>''
     = [''~ <root><item>1</item><item>2</item></root>'']\<close>
    using t [THEN conjunct1, THEN mp, OF marked_xml, THEN conjunct1, symmetric]
      t [THEN conjunct1, THEN mp, OF marked_xml, THEN conjunct2, symmetric]
    by simp
  have j: \<open>annotate (source_mark whole_path)
        [\<lparr>path = ''root['a.b']'', change_type = ''modification'',
                     old_value = Some (PInt 1), new_value = Some (PInt 2)\<rparr>] ''{"a.b": 1, "c": "b']"}''
     = [''  '' @ ''{"a.b": 1, "c": "b']"}'']
   \<and> annotate (target_mark whole_path)
        [\<lparr>path = ''root['a.b']'', change_type = ''modification'',
                     old_value = Some (PInt 1), new_value = Some (PInt 2)\<rparr>] ''{"a.b": 2, "c": "b']"}''
     = [''  '' @ ''{"a.b": 2, "c": "b']"}'']\<close>
    using t [THEN conjunct2, THEN conjunct1, THEN mp, OF marked_json, THEN conjunct1, symmetric]
      t [THEN conjunct2, THEN conjunct1, THEN mp, OF marked_json, THEN conjunct2, symmetric]
    by simp
  have y: \<open>annotate (source_mark whole_path) ([] :: pyval change list) ''a: 1'' = [''  a: 1'']
   \<and> annotate (target_mark whole_path) ([] :: pyval change list) ''a: 1'' = [''  a: 1'']\<close>
    using t [THEN conjunct2, THEN conjunct2, THEN mp, OF marked_yaml, THEN conjunct1, symmetric]
      t [THEN conjunct2, THEN conjunct2, THEN mp, OF marked_yaml, THEN conjunct2, symmetric]
    by simp
  show ?thesis by (intro conjI marked_xml marked_json marked_yaml x j y)
qed

text \<open>
  The claim of C9 as it was stated (path fragments in all three formats) fails for
  JSON. The source \<open>{"a.b": 1, "c": "b']"}\<close> and the target \<open>{"a.b": 2, "c": "b']"}\<close>
  differ at the path \<open>root['a.b']\<close>. Its fragments are \<open>root['a\<close> and \<open>b']\<close>, and the second
  occurs in the one line of either text, so the claim marks both lines \<open>~\<close>; the code
  looks for the whole path, finds it in neither line and marks both with a blank.
\<close>

theorem json_marks_counterexample:
  \<open>compare_json json_loads_ex deep_diff_ex ''{"a.b": 1, "c": "b']"}'' ''{"a.b": 2, "c": "b']"}'' [] (Some True)
     = Inr \<lparr>summary = \<lparr>additions = 0, deletions = 0, modifications = 1\<rparr>,
            diff = [\<lparr>path = ''root['a.b']'', change_type = ''modification'',
                     old_value = Some (PInt 1), new_value = Some (PInt 2)\<rparr>],
            formatted_diff = \<lparr>source = [''  '' @ ''{"a.b": 1, "c": "b']"}''], target = [''  '' @ ''{"a.b": 2, "c": "b']"}'']\<rparr>\<rparr>
   \<and> annotate (source_mark path_fragments)
        [\<lparr>path = ''root['a.b']'', change_type = ''modification'',
                     old_value = Some (PInt 1), new_value = Some (PInt 2)\<rparr>] ''{"a.b": 1, "c": "b']"}''
     = [''~ '' @ ''{"a.b": 1, "c": "b']"}'']
   \<and> annotate (target_mark path_fragments)
        [\<lparr>path = ''root['a.b']'', change_type = ''modification'',
                     old_value = Some (PInt 1), new_value = Some (PInt 2)\<rparr>] ''{"a.b": 2, "c": "b']"}''
     = [''~ '' @ ''{"a.b": 2, "c": "b']"}'']\<close>
  by (simp add: marked_json annotate_def source_mark_def target_mark_def touches_def
        path_fragments_def sublist_Cons_right)

section \<open>Summary and tally\<close>

text \<open>
  \<open>compare_xml\<close> counts the records it returns. \<open>compare_json\<close> and \<open>compare_yaml\<close> count
  the categories of the report: their summary is the tally of the records plus the
  added and removed list items, for which no record is built.
\<close>

lemma xml_summary_is_tally:
  "compare_xml fromstring s t ign st = Inr r \<Longrightarrow> summary r = tally (diff r)"
  by (erule compare_xml_returns)

lemma len_iter: "len c = length (iter c)"
  by (cases c) simp_all

lemma filter_kind_all:
  "list_all (\<lambda>x. change_type x = k) cs \<Longrightarrow>
     filter (\<lambda>c. change_type c = k') cs = (if k' = k then cs else [])"
  by (induction cs) auto

lemma tally_of_report:
  assumes "additions_loop ca pa = Inr added" "deletions_loop cr pr = Inr removed"
    "modifications_loop cc pc = Inr changed"
  shows "tally (added @ removed @ changed)
           = \<lparr>additions = length pa, deletions = length pr, modifications = length pc\<rparr>"
proof -
  note a = additions_loop_records [OF assms(1)]
  note d = deletions_loop_records [OF assms(2)]
  note m = modifications_loop_records [OF assms(3)]
  have "length added = length pa" "length removed = length pr" "length changed = length pc"
    using a d m by (metis length_map)+
  then show ?thesis
    by (simp add: tally_def filter_kind_all [OF a [THEN conjunct2]]
          filter_kind_all [OF d [THEN conjunct2]] filter_kind_all [OF m [THEN conjunct2]])
qed

lemma json_summary_is_tally_plus_list_items:
  assumes "compare_json loads DeepDiff s t ign st = Inr r
             \<or> compare_yaml loads DeepDiff s t ign st = Inr r"
    and "loads s = Inr a" "loads t = Inr b" "DeepDiff a b (py_not st) ign = Inr report"
  shows "summary r =
     \<lparr>additions = additions (tally (diff r)) + len (dd_get report ''iterable_item_added''),
      deletions = deletions (tally (diff r)) + len (dd_get report ''iterable_item_removed''),
      modifications = modifications (tally (diff r))\<rparr>"
proof -
  from assms(1) obtain a' b' report' added removed changed where
    h: "loads s = Inr a'" "loads t = Inr b'" "DeepDiff a' b' (py_not st) ign = Inr report'"
      "additions_loop (dd_get report' ''dictionary_item_added'')
         (iter (dd_get report' ''dictionary_item_added'')) = Inr added"
      "deletions_loop (dd_get report' ''dictionary_item_removed'')
         (iter (dd_get report' ''dictionary_item_removed'')) = Inr removed"
      "modifications_loop (dd_get report' ''values_changed'')
         (iter (dd_get report' ''values_changed'')) = Inr changed"
      "diff r = added @ removed @ changed"
      "summary r =
         \<lparr>additions = len (dd_get report' ''dictionary_item_added'')
                        + len (dd_get report' ''iterable_item_added''),
          deletions = len (dd_get report' ''dictionary_item_removed'')
                        + len (dd_get report' ''iterable_item_removed''),
          modifications = len (dd_get report' ''values_changed'')\<rparr>"
    by (elim disjE compare_json_returns compare_yaml_returns)
  have eq: "report' = report" using h(1-3) assms(2-4) by simp
  show ?thesis
    unfolding h(7,8) tally_of_report [OF h(4,5,6)] eq by (simp add: len_iter)
qed

section \<open>Ignored keys in XML\<close>

text \<open>
  Every record of \<open>compare_xml_dicts\<close> sits at a path that ends in a dot and a key that
  is not ignored: the key the loop was visiting, at whatever depth.
\<close>

lemma ends_in_key: "k \<notin> set ign \<Longrightarrow> \<exists>q k'. p @ ''.'' @ k = q @ ''.'' @ k' \<and> k' \<notin> set ign"
  by blast

lemma source_loop_keys:
  "c \<in> set (source_loop rest td ign p) \<Longrightarrow> \<exists>q k. path c = q @ ''.'' @ k \<and> k \<notin> set ign"
  by (induction rest td ign p rule: source_loop.induct)
     (auto split: if_splits simp: ends_in_key simp del: append.simps)

lemma target_loop_head:
  assumes "c \<in> set (target_loop sd ((key, val) # rest) ign p)"
  shows "c \<in> set (target_loop sd rest ign p)
     \<or> (key \<notin> set ign \<and>
         (path c = p @ ''.'' @ key
          \<or> (\<exists>vd sd'. map_of sd key = Some (XDict sd') \<and> val = XDict vd
                \<and> \<not> py_eq (XDict sd') (XDict vd)
                \<and> c \<in> set (compare_xml_dicts sd' vd ign (p @ ''.'' @ key)))))"
proof (cases "key \<in> set ign")
  case True
  with assms show ?thesis by simp
next
  case k: False
  show ?thesis
  proof (cases "map_of sd key")
    case None
    with assms k show ?thesis
      by (simp only: target_loop.simps if_False option.case set_append Un_iff list.set
            insert_iff empty_iff) force
  next
    case (Some sv)
    show ?thesis
    proof (cases "py_eq sv val")
      case True
      with assms k Some show ?thesis
        by (simp only: target_loop.simps if_False if_True option.case
              append_Nil simp_thms)
    next
      case n: False
      from assms k Some n have m:
        "c \<in> set (case (val, sv) of
                     (XDict vd, XDict sd') \<Rightarrow> compare_xml_dicts sd' vd ign (p @ ''.'' @ key)
                   | _ \<Rightarrow> [\<lparr>path = p @ ''.'' @ key, change_type = ''modification'',
                            old_value = Some sv, new_value = Some val\<rparr>])
         \<or> c \<in> set (target_loop sd rest ign p)"
        by (simp only: target_loop.simps if_False if_True option.case not_False_eq_True
              set_append Un_iff)
      show ?thesis
      proof (cases val)
        case (XDict vd)
        show ?thesis
        proof (cases sv)
          case (XDict sd')
          with m \<open>val = XDict vd\<close> Some k n show ?thesis
            by (simp only: prod.case xval.case) blast
        next
          case (XStr x)
          with m \<open>val = XDict vd\<close> k show ?thesis
            by (simp only: prod.case xval.case list.set insert_iff empty_iff) force
        next
          case (XList x)
          with m \<open>val = XDict vd\<close> k show ?thesis
            by (simp only: prod.case xval.case list.set insert_iff empty_iff) force
        qed
      next
        case (XStr x)
        with m k show ?thesis
          by (simp only: prod.case xval.case list.set insert_iff empty_iff) force
      next
        case (XList x)
        with m k show ?thesis
          by (simp only: prod.case xval.case list.set insert_iff empty_iff) force
      qed
    qed
  qed
qed

lemma compare_xml_dicts_keys:
  "c \<in> set (compare_xml_dicts sd td ign p) \<Longrightarrow> \<exists>q k. path c = q @ ''.'' @ k \<and> k \<notin> set ign"
  "c \<in> set (target_loop sd rest ign p) \<Longrightarrow> \<exists>q k. path c = q @ ''.'' @ k \<and> k \<notin> set ign"
proof (induction sd td ign p and sd rest ign p rule: compare_xml_dicts_target_loop.induct)
  case (1 source_dict target_dict ignore_keys ppath)
  from "1.prems" have "c \<in> set (target_loop source_dict target_dict ignore_keys ppath)
      \<or> c \<in> set (source_loop source_dict target_dict ignore_keys ppath)"
    by (simp only: compare_xml_dicts.simps set_append Un_iff)
  then show ?case using "1.IH" source_loop_keys by blast
next
  case (2 source_dict ignore_keys ppath)
  then show ?case by simp
next
  case (3 source_dict key val rest ignore_keys ppath)
  from target_loop_head [OF "3.prems"] show ?case
  proof (elim disjE conjE exE)
    assume "c \<in> set (target_loop source_dict rest ignore_keys ppath)"
    then show ?thesis by (rule "3.IH"(2))
  next
    assume "key \<notin> set ignore_keys" "path c = ppath @ ''.'' @ key"
    then show ?thesis by blast
  next
    fix vd sd'
    assume k: "key \<notin> set ignore_keys"
      and s: "map_of source_dict key = Some (XDict sd')" and v: "val = XDict vd"
      and n: "\<not> py_eq (XDict sd') (XDict vd)"
      and c: "c \<in> set (compare_xml_dicts sd' vd ignore_keys (ppath @ ''.'' @ key))"
    from n v have n': "\<not> py_eq (XDict sd') val" by simp
    show ?thesis
      by (rule "3.IH"(1) [OF k s n' refl v refl c])
  qed
qed

lemma xml_ignored_keys_not_reported:
  "compare_xml fromstring s t ign st = Inr r \<Longrightarrow> c \<in> set (diff r) \<Longrightarrow>
     \<exists>q k. path c = q @ ''.'' @ k \<and> k \<notin> set ign"
proof -
  assume r: "compare_xml fromstring s t ign st = Inr r" and c: "c \<in> set (diff r)"
  from r obtain a b where
    "diff r = compare_xml_dicts (xml_to_dict a) (xml_to_dict b) ign ''root''"
    by (rule compare_xml_returns)
  with c show ?thesis using compare_xml_dicts_keys(1) by metis
qed

end
